theory Spec2Isabelle
  imports Main
begin

section \<open>Values of the configuration file\<close>

text \<open>
  \<^verbatim>\<open>json.loads\<close> returns a dict, a list, a str, an int, a float, a bool or \<^verbatim>\<open>None\<close>.
  A float is a dyadic rational \<open>m * 2 ^ e\<close>, an infinity (the flag is its sign) or a
  NaN. A dict is an association list in insertion order, read with \<open>map_of\<close>.
  \<open>JNull\<close> is Python's \<^verbatim>\<open>None\<close>.
\<close>

datatype pyfloat = Finite int int | Infinite bool | NaN

datatype json =
    JNull
  | JBool bool
  | JInt int
  | JFloat pyfloat
  | JString string
  | JArray "json list"
  | JObject "(string \<times> json) list"

text \<open>The exceptions of the program; \<open>External\<close> is any exception of a collaborator.\<close>

datatype error =
    KeyError json
  | ValueError
  | TypeError
  | IndexError
  | OverflowError
  | External string

section \<open>The bot, its effects and its environment\<close>

text \<open>
  Everything the bot does to the outside is an event of its trace, oldest first: a line
  printed by \<^verbatim>\<open>log\<close> (origin and message; the timestamp is left out), a call of the
  framework (\<^verbatim>\<open>wait_until_ready\<close>, \<^verbatim>\<open>change_presence\<close> with the name of the game), the
  call of the abstract \<^verbatim>\<open>load_guilds\<close>, and the two persistence calls of a guild object.
\<close>

datatype 'g event =
    Log string string
  | WaitUntilReady
  | LoadGuilds
  | ChangePresence json
  | WriteSettings 'g
  | WriteData 'g

text \<open>
  The fields of class \<^verbatim>\<open>Bot\<close>. \<^verbatim>\<open>_token\<close> and \<^verbatim>\<open>_activity_str\<close> hold whatever value the
  configuration gives them, so they are JSON values. \<^verbatim>\<open>_custom_guilds\<close> is a dict from
  \<^verbatim>\<open>str(guild_id)\<close> to a guild object of type \<open>'g\<close>, an association list with one
  entry for a key, in insertion order. \<open>user\<close> is the framework's
  \<^verbatim>\<open>self.user\<close> (name and id), \<^verbatim>\<open>None\<close> until the framework has it. \<^verbatim>\<open>_users\<close> is
  written once by the constructor and never read, and is left out.
\<close>

record 'g bot =
  name :: string
  version :: string
  token :: json
  admins_id :: "int list"
  custom_guilds :: "(string \<times> 'g) list"
  activity_str :: json
  custom_ready :: bool
  user :: "(string \<times> int) option"
  trace :: "'g event list"

text \<open>
  What the program calls and does not define: the file system, the JSON decoder,
  \<^verbatim>\<open>int\<close> on a str, the random source behind \<^verbatim>\<open>choice\<close>, whether a call of the
  framework or of a guild raises (it may depend on the trace so far), and the subclass's
  \<^verbatim>\<open>load_guilds\<close> (it gives the registry its entries and may raise).
\<close>

record 'g env =
  path_exists :: "string \<Rightarrow> bool"
  read_text :: "string \<Rightarrow> error + string"
  json_loads :: "string \<Rightarrow> error + json"
  int_of_str :: "string \<Rightarrow> error + int"
  randbelow :: "nat \<Rightarrow> nat"
  raises :: "'g event \<Rightarrow> 'g event list \<Rightarrow> error option"
  load_guilds_ext :: "(string \<times> 'g) list \<Rightarrow> error option \<times> (string \<times> 'g) list"

text \<open>
  A method is a function from the bot to its result and the bot afterwards. An exception
  is the result \<open>Inl e\<close>; the assignments and calls made before it stay in the bot.
\<close>

type_synonym ('a, 'g) action = "'g bot \<Rightarrow> (error + 'a) \<times> 'g bot"

definition act_return :: "'a \<Rightarrow> ('a, 'g) action" where
  "act_return x b = (Inr x, b)"

definition act_lift :: "error + 'a \<Rightarrow> ('a, 'g) action" where
  "act_lift r b = (r, b)"

definition act_bind :: "('a, 'g) action \<Rightarrow> ('a \<Rightarrow> ('b, 'g) action) \<Rightarrow> ('b, 'g) action" where
  "act_bind m f b = (case m b of (Inl e, b') \<Rightarrow> (Inl e, b') | (Inr x, b') \<Rightarrow> f x b')"

definition act_seq :: "(unit, 'g) action \<Rightarrow> ('b, 'g) action \<Rightarrow> ('b, 'g) action" where
  "act_seq m n = act_bind m (\<lambda>_. n)"

definition assign :: "('g bot \<Rightarrow> 'g bot) \<Rightarrow> (unit, 'g) action" where
  "assign f b = (Inr (), f b)"

text \<open>\<^verbatim>\<open>log\<close> prints one line.\<close>

definition log :: "string \<Rightarrow> string \<Rightarrow> (unit, 'g) action" where
  "log origin message b = (Inr (), b\<lparr>trace := trace b @ [Log origin message]\<rparr>)"

text \<open>A call of the framework or of a guild: it is made, then it returns or raises.\<close>

definition ext_call :: "'g env \<Rightarrow> 'g event \<Rightarrow> (unit, 'g) action" where
  "ext_call env ev b =
     (case raises env ev (trace b) of
        None \<Rightarrow> (Inr (), b\<lparr>trace := trace b @ [ev]\<rparr>)
      | Some e \<Rightarrow> (Inl e, b\<lparr>trace := trace b @ [ev]\<rparr>))"

section \<open>Python's built-ins\<close>

text \<open>\<^verbatim>\<open>str\<close> of an int: its decimal digits, after a minus sign when negative.\<close>

fun str_nat :: "nat \<Rightarrow> string" where
  "str_nat n =
     (if n < 10 then [''0123456789'' ! n]
      else str_nat (n div 10) @ [''0123456789'' ! (n mod 10)])"

definition str_int :: "int \<Rightarrow> string" where
  "str_int i = (if i < 0 then CHR ''-'' # str_nat (nat (- i)) else str_nat (nat i))"

text \<open>\<^verbatim>\<open>int\<close> of a float truncates towards zero.\<close>

fun py_trunc :: "pyfloat \<Rightarrow> error + int" where
  "py_trunc (Finite m e) =
     Inr (if 0 \<le> e then m * 2 ^ nat e else sgn m * (\<bar>m\<bar> div 2 ^ nat (- e)))"
| "py_trunc (Infinite s) = Inl OverflowError"
| "py_trunc NaN = Inl ValueError"

fun py_int :: "'g env \<Rightarrow> json \<Rightarrow> error + int" where
  "py_int env (JInt i) = Inr i"
| "py_int env (JBool b) = Inr (if b then 1 else 0)"
| "py_int env (JFloat f) = py_trunc f"
| "py_int env (JString s) = int_of_str env s"
| "py_int env JNull = Inl TypeError"
| "py_int env (JArray xs) = Inl TypeError"
| "py_int env (JObject kvs) = Inl TypeError"

text \<open>Iteration: a list gives its items, a str its characters, a dict its keys.\<close>

fun py_iter :: "json \<Rightarrow> error + json list" where
  "py_iter (JArray xs) = Inr xs"
| "py_iter (JString s) = Inr (map (\<lambda>c. JString [c]) s)"
| "py_iter (JObject kvs) = Inr (map (\<lambda>kv. JString (fst kv)) kvs)"
| "py_iter j = Inl TypeError"

text \<open>\<^verbatim>\<open>list(map(int, xs))\<close> stops at the first item that \<^verbatim>\<open>int\<close> refuses.\<close>

fun map_int :: "'g env \<Rightarrow> json list \<Rightarrow> error + int list" where
  "map_int env [] = Inr []"
| "map_int env (x # xs) =
     (case py_int env x of
        Inl e \<Rightarrow> Inl e
      | Inr i \<Rightarrow> (case map_int env xs of Inl e \<Rightarrow> Inl e | Inr js \<Rightarrow> Inr (i # js)))"

definition list_map_int :: "'g env \<Rightarrow> json \<Rightarrow> error + int list" where
  "list_map_int env j = (case py_iter j of Inl e \<Rightarrow> Inl e | Inr xs \<Rightarrow> map_int env xs)"

text \<open>\<^verbatim>\<open>x[key]\<close> with a str key: only a dict has str keys.\<close>

fun getitem :: "json \<Rightarrow> string \<Rightarrow> error + json" where
  "getitem (JObject kvs) key =
     (case map_of kvs key of None \<Rightarrow> Inl (KeyError (JString key)) | Some v \<Rightarrow> Inr v)"
| "getitem j key = Inl TypeError"

text \<open>
  \<^verbatim>\<open>random.choice(seq)\<close> is \<^verbatim>\<open>seq[i]\<close> for a random \<open>i\<close> below \<^verbatim>\<open>len(seq)\<close>, and an
  \<^verbatim>\<open>IndexError\<close> when \<^verbatim>\<open>len(seq)\<close> is 0. A dict of the decoder has str keys only, so
  \<^verbatim>\<open>seq[i]\<close> is a \<^verbatim>\<open>KeyError\<close> there.
\<close>

fun choice :: "'g env \<Rightarrow> json \<Rightarrow> error + json" where
  "choice env (JArray xs) =
     (if xs = [] then Inl IndexError
      else Inr (xs ! (randbelow env (length xs) mod length xs)))"
| "choice env (JString s) =
     (if s = [] then Inl IndexError
      else Inr (JString [s ! (randbelow env (length s) mod length s)]))"
| "choice env (JObject kvs) =
     (if kvs = [] then Inl IndexError
      else Inl (KeyError (JInt (int (randbelow env (length kvs) mod length kvs)))))"
| "choice env j = Inl TypeError"

section \<open>The methods of the bot\<close>

text \<open>
  \<^verbatim>\<open>load_guilds\<close> is abstract in class \<^verbatim>\<open>Bot\<close>: the call is an event, and what the
  subclass's body does to the registry, and whether it raises, is the environment's
  \<open>load_guilds_ext\<close>.
\<close>

definition load_guilds :: "'g env \<Rightarrow> (unit, 'g) action" where
  "load_guilds env b =
     (case load_guilds_ext env (custom_guilds b) of
        (None, r) \<Rightarrow> (Inr (), b\<lparr>custom_guilds := r, trace := trace b @ [LoadGuilds]\<rparr>)
      | (Some e, r) \<Rightarrow> (Inl e, b\<lparr>custom_guilds := r, trace := trace b @ [LoadGuilds]\<rparr>))"

definition set_activity :: "'g env \<Rightarrow> string \<Rightarrow> (unit, 'g) action" where
  "set_activity env activity b =
     (if activity \<noteq> [] then ext_call env (ChangePresence (JString activity)) b
      else ext_call env (ChangePresence (activity_str b)) b)"

definition prepare_data :: "'g env \<Rightarrow> (unit, 'g) action" where
  "prepare_data env b =
     (if \<not> custom_ready b then
        act_seq (assign (\<lambda>b. b\<lparr>custom_ready := True\<rparr>))
       (act_seq (log ''Bot'' ''Waiting...'')
       (act_seq (ext_call env WaitUntilReady)
       (act_seq (load_guilds env)
       (\<lambda>b. case user b of
          Some u \<Rightarrow>
            act_seq (log ''Bot'' (name b @ '' '' @ version b @ '' ready to operate''))
           (act_seq (log ''Bot''
              (''Logged as '' @ fst u @ '', with the id: '' @ str_int (snd u)))
           (set_activity env [])) b
        | None \<Rightarrow>
            act_seq (log ''Bot'' ''Failed to get the user data'')
           (set_activity env ''ERROR'') b)))) b
      else act_return () b)"

definition load_internal_settings :: "'g env \<Rightarrow> string \<Rightarrow> (json, 'g) action" where
  \<open>load_internal_settings env path =
     (if path = [] then act_return JNull
      else if path_exists env path then
        act_bind (act_lift (read_text env path)) (\<lambda>internal_settings_json.
        act_lift (json_loads env internal_settings_json))
      else
        act_seq (log ''Bot''
          (''The loading operation has failed. The file '' @
           ''"internal_settings.json" should be in the system directory''))
       (act_return JNull))\<close>

definition set_internal_settings :: "'g env \<Rightarrow> string \<Rightarrow> (unit, 'g) action" where
  "set_internal_settings env path =
     act_seq (log ''Bot'' ''Loading internal definitions'')
    (act_bind (load_internal_settings env path) (\<lambda>internal_settings.
       if internal_settings \<noteq> JNull then
         act_bind (act_lift (getitem internal_settings ''ADM_ID'')) (\<lambda>adm.
         act_bind (act_lift (list_map_int env adm)) (\<lambda>ids.
         act_seq (assign (\<lambda>b. b\<lparr>admins_id := ids\<rparr>))
        (act_bind (act_lift (getitem internal_settings ''TOKEN'')) (\<lambda>tok.
         act_seq (assign (\<lambda>b. b\<lparr>token := tok\<rparr>))
        (act_bind (act_lift (getitem internal_settings ''Activities'')) (\<lambda>acts.
         act_bind (act_lift (choice env acts)) (\<lambda>a.
         assign (\<lambda>b. b\<lparr>activity_str := a\<rparr>))))))))
       else log ''Bot'' ''Failed set internal definitions''))"

text \<open>
  The constructor, after the framework's own: the fields, two lines, the seeding of the
  random source (the environment's \<open>randbelow\<close> stands for the seeded source), the
  settings.
\<close>

definition init :: "'g env \<Rightarrow> string \<Rightarrow> string \<Rightarrow> string \<Rightarrow> (error + unit) \<times> 'g bot" where
  "init env nm settings_file ver =
     act_seq (log ''Bot'' (''Initializing '' @ nm @ '' '' @ ver))
    (act_seq (log ''Bot'' ''Initializing the RNG'')
    (set_internal_settings env settings_file))
     \<lparr>name = nm, version = ver, token = JString [], admins_id = [],
      custom_guilds = [], activity_str = JString [], custom_ready = False,
      user = None, trace = []\<rparr>"

text \<open>\<^verbatim>\<open>self._custom_guilds[str(guild_id)]\<close>.\<close>

definition lookup_guild :: "int \<Rightarrow> ('g, 'g) action" where
  "lookup_guild guild_id b =
     (case map_of (custom_guilds b) (str_int guild_id) of
        None \<Rightarrow> (Inl (KeyError (JString (str_int guild_id))), b)
      | Some g \<Rightarrow> (Inr g, b))"

definition save_guild :: "'g env \<Rightarrow> int \<Rightarrow> (unit, 'g) action" where
  "save_guild env guild_id =
     act_seq (act_bind (lookup_guild guild_id) (\<lambda>g. ext_call env (WriteSettings g)))
             (act_bind (lookup_guild guild_id) (\<lambda>g. ext_call env (WriteData g)))"

text \<open>The loop of \<^verbatim>\<open>save_all_guilds\<close> over \<^verbatim>\<open>self._custom_guilds.values()\<close>.\<close>

fun save_loop :: "'g env \<Rightarrow> 'g list \<Rightarrow> (unit, 'g) action" where
  "save_loop env [] = act_return ()"
| "save_loop env (guild # guilds) =
     act_seq (ext_call env (WriteSettings guild))
    (act_seq (ext_call env (WriteData guild))
    (save_loop env guilds))"

definition save_all_guilds :: "'g env \<Rightarrow> (unit, 'g) action" where
  "save_all_guilds env b = save_loop env (map snd (custom_guilds b)) b"

definition is_admin :: "int \<Rightarrow> (bool, 'g) action" where
  "is_admin author_id b = act_return (author_id \<in> set (admins_id b)) b"

definition get_custom_guild :: "int \<Rightarrow> ('g, 'g) action" where
  "get_custom_guild guild_id = lookup_guild guild_id"

text \<open>The autosave loop's body and the four event handlers.\<close>

definition save :: "'g env \<Rightarrow> (unit, 'g) action" where
  "save env = act_seq (log ''Bot'' ''Saving all guilds automatically'') (save_all_guilds env)"

definition on_ready :: "'g env \<Rightarrow> (unit, 'g) action" where
  "on_ready env = act_seq (log ''Bot'' ''Ready'') (prepare_data env)"

definition on_connect :: "(unit, 'g) action" where
  "on_connect = log ''Bot'' ''Connected''"

definition on_disconnect :: "(unit, 'g) action" where
  "on_disconnect = log ''Bot'' ''Disconnected''"

definition on_resumed :: "(unit, 'g) action" where
  "on_resumed = log ''Bot'' ''Resumed''"

section \<open>Sequences of calls\<close>

text \<open>
  The framework and the commands call the methods one after another. An exception of a
  handler is caught by the caller, so the next call finds the bot as the failed one left
  it. \<^verbatim>\<open>run\<close> and \<^verbatim>\<open>get_info\<close> only read fields and hand over to the framework, and are
  not calls of this list.
\<close>

datatype call =
    OnReady
  | OnConnect
  | OnDisconnect
  | OnResumed
  | Save
  | PrepareData
  | SetActivity string
  | SetInternalSettings string
  | SaveGuild int
  | SaveAllGuilds
  | IsAdmin int
  | GetCustomGuild int
  | LogLine string string

fun exec :: "'g env \<Rightarrow> call \<Rightarrow> 'g bot \<Rightarrow> 'g bot" where
  "exec env OnReady b = snd (on_ready env b)"
| "exec env OnConnect b = snd (on_connect b)"
| "exec env OnDisconnect b = snd (on_disconnect b)"
| "exec env OnResumed b = snd (on_resumed b)"
| "exec env Save b = snd (save env b)"
| "exec env PrepareData b = snd (prepare_data env b)"
| "exec env (SetActivity activity) b = snd (set_activity env activity b)"
| "exec env (SetInternalSettings path) b = snd (set_internal_settings env path b)"
| "exec env (SaveGuild guild_id) b = snd (save_guild env guild_id b)"
| "exec env SaveAllGuilds b = snd (save_all_guilds env b)"
| "exec env (IsAdmin author_id) b = snd (is_admin author_id b)"
| "exec env (GetCustomGuild guild_id) b = snd (get_custom_guild guild_id b)"
| "exec env (LogLine origin message) b = snd (log origin message b)"

definition exec_all :: "'g env \<Rightarrow> call list \<Rightarrow> 'g bot \<Rightarrow> 'g bot" where
  "exec_all env cs b = fold (exec env) cs b"

section \<open>Properties of traces\<close>

text \<open>The calls that save the guilds of a list, one guild after the other.\<close>

definition persist_calls :: "'g list \<Rightarrow> 'g event list" where
  "persist_calls gs = concat (map (\<lambda>g. [WriteSettings g, WriteData g]) gs)"

text \<open>
  A trace of persistence calls in the fixed order: every \<^verbatim>\<open>write_data\<close> comes right after
  the \<^verbatim>\<open>write_settings\<close> of the same guild, and nothing else occurs. The trace may end
  with a \<^verbatim>\<open>write_settings\<close> alone, when that call raised.
\<close>

fun settings_then_data :: "'g event list \<Rightarrow> bool" where
  "settings_then_data [] = True"
| "settings_then_data [WriteSettings g] = True"
| "settings_then_data (WriteSettings g # WriteData g' # evs) = (g = g' \<and> settings_then_data evs)"
| "settings_then_data evs = False"

text \<open>A presence change, whatever the name of the game.\<close>

fun is_presence :: "'g event \<Rightarrow> bool" where
  "is_presence (ChangePresence a) = True"
| "is_presence ev = False"

text \<open>
  A step that starts no initialization: the readiness flag is as before, and the events
  added to the trace hold neither \<^verbatim>\<open>wait_until_ready\<close> nor \<^verbatim>\<open>load_guilds\<close>.
\<close>

definition no_init :: "'g bot \<Rightarrow> 'g bot \<Rightarrow> bool" where
  "no_init b b' \<longleftrightarrow>
     custom_ready b' = custom_ready b
     \<and> (\<exists>evs. trace b' = trace b @ evs \<and> WaitUntilReady \<notin> set evs \<and> LoadGuilds \<notin> set evs)"

text \<open>
  The lines that \<^verbatim>\<open>prepare_data\<close> prints after \<^verbatim>\<open>load_guilds\<close>, and the presence it sets
  then: the two branches of its test of \<^verbatim>\<open>self.user\<close>.
\<close>

definition body_lines :: "'g bot \<Rightarrow> 'g event list" where
  "body_lines b =
     (case user b of
        Some u \<Rightarrow>
          [Log ''Bot'' (name b @ '' '' @ version b @ '' ready to operate''),
           Log ''Bot'' (''Logged as '' @ fst u @ '', with the id: '' @ str_int (snd u))]
      | None \<Rightarrow> [Log ''Bot'' ''Failed to get the user data''])"

definition body_presence :: "'g bot \<Rightarrow> 'g event" where
  "body_presence b =
     ChangePresence (case user b of Some u \<Rightarrow> activity_str b | None \<Rightarrow> JString ''ERROR'')"

text \<open>The file at \<open>path\<close> exists, can be read, and decodes to \<open>cfg\<close>.\<close>

definition decodes_to :: "'g env \<Rightarrow> string \<Rightarrow> json \<Rightarrow> bool" where
  "decodes_to env path cfg \<longleftrightarrow>
     path \<noteq> [] \<and> path_exists env path
     \<and> (case read_text env path of Inl e \<Rightarrow> False | Inr s \<Rightarrow> json_loads env s = Inr cfg)"

section \<open>An environment and a bot for the examples\<close>

text \<open>
  \<^verbatim>\<open>int\<close> on the strs of the examples: an optional sign followed by ASCII digits gives
  the number, and a str with a character that is no sign, digit, white space or
  underscore gives a \<^verbatim>\<open>ValueError\<close>.
\<close>

fun digits_value :: "string \<Rightarrow> nat \<Rightarrow> error + nat" where
  "digits_value [] acc = Inr acc"
| "digits_value (c # cs) acc =
     (if 48 \<le> (of_char c :: nat) \<and> (of_char c :: nat) \<le> 57
      then digits_value cs (10 * acc + (of_char c - 48))
      else Inl ValueError)"

definition decimal :: "string \<Rightarrow> error + int" where
  "decimal s =
     (case s of
        [] \<Rightarrow> Inl ValueError
      | c # cs \<Rightarrow>
          if c = CHR ''-'' \<or> c = CHR ''+'' then
            (if cs = [] then Inl ValueError
             else case digits_value cs 0 of
                    Inl e \<Rightarrow> Inl e
                  | Inr n \<Rightarrow> Inr (if c = CHR ''-'' then - int n else int n))
          else (case digits_value s 0 of Inl e \<Rightarrow> Inl e | Inr n \<Rightarrow> Inr (int n)))"

text \<open>
  The file \<^verbatim>\<open>internal_settings.json\<close> exists and decodes to \<open>cfg\<close>; no other path exists.
  No call of the framework or of a guild raises, and the subclass's \<^verbatim>\<open>load_guilds\<close>
  registers one guild.
\<close>

definition example_env :: "json \<Rightarrow> string env" where
  "example_env cfg =
     \<lparr>path_exists = (\<lambda>p. p = ''internal_settings.json''),
      read_text = (\<lambda>p. Inr ''{}''),
      json_loads = (\<lambda>s. Inr cfg),
      int_of_str = decimal,
      randbelow = (\<lambda>n. 0),
      raises = (\<lambda>ev h. None),
      load_guilds_ext = (\<lambda>r. (None, r @ [(''7'', ''gamma'')]))\<rparr>"

text \<open>The same, but the framework's \<^verbatim>\<open>wait_until_ready\<close> raises.\<close>

definition failing_env :: "json \<Rightarrow> string env" where
  "failing_env cfg =
     (example_env cfg)
       \<lparr>raises := (\<lambda>ev h. if ev = WaitUntilReady then Some (External ''closed'') else None)\<rparr>"

definition example_bot :: "string bot" where
  "example_bot =
     \<lparr>name = ''Bot'', version = ''1.0'', token = JString ''t'', admins_id = [1, 2],
      custom_guilds = [(''1'', ''alpha''), (''2'', ''beta'')],
      activity_str = JString ''chess'', custom_ready = False, user = None, trace = []\<rparr>"

text \<open>
  Four configurations: a valid one; one whose admin entry is no number; one without
  \<^verbatim>\<open>TOKEN\<close>; one with that admin entry and no other key.
\<close>

definition valid_settings :: json where
  "valid_settings =
     JObject [(''ADM_ID'', JArray [JInt 10, JString ''42'']),
              (''TOKEN'', JString ''secret''),
              (''Activities'', JArray [JString ''chess'', JString ''go''])]"

definition unconvertible_settings :: json where
  "unconvertible_settings =
     JObject [(''ADM_ID'', JArray [JString ''admin'']),
              (''TOKEN'', JString ''secret''),
              (''Activities'', JArray [JString ''chess''])]"

definition tokenless_settings :: json where
  "tokenless_settings =
     JObject [(''ADM_ID'', JArray [JInt 10]), (''Activities'', JArray [JString ''chess''])]"

definition admin_only_settings :: json where
  "admin_only_settings = JObject [(''ADM_ID'', JArray [JString ''admin''])]"

section \<open>Basic facts\<close>

declare str_nat.simps [simp del]

lemma str_int_1: "str_int 1 = ''1''"
  by (simp add: str_int_def str_nat.simps)

lemma str_int_3: "str_int 3 = ''3''"
  by (simp add: str_int_def str_nat.simps)

section \<open>Saving guilds\<close>

lemma save_loop_returns:
  "\<forall>g \<in> set gs. \<forall>h. raises env (WriteSettings g) h = None \<and> raises env (WriteData g) h = None \<Longrightarrow>
   save_loop env gs b = (Inr (), b\<lparr>trace := trace b @ persist_calls gs\<rparr>)"
  by (induction gs arbitrary: b)
     (simp_all add: persist_calls_def act_return_def act_seq_def act_bind_def ext_call_def)

lemma save_loop_normal:
  "fst (save_loop env gs b) = Inr () \<Longrightarrow>
   save_loop env gs b = (Inr (), b\<lparr>trace := trace b @ persist_calls gs\<rparr>)"
proof (induction gs arbitrary: b)
  case Nil
  then show ?case by (simp add: act_return_def persist_calls_def)
next
  case (Cons g gs)
  let ?b2 = "b\<lparr>trace := trace b @ [WriteSettings g, WriteData g]\<rparr>"
  from Cons.prems have ws: "raises env (WriteSettings g) (trace b) = None"
    by (simp add: act_seq_def act_bind_def ext_call_def split: option.splits)
  with Cons.prems have wd: "raises env (WriteData g) (trace b @ [WriteSettings g]) = None"
    by (simp add: act_seq_def act_bind_def ext_call_def split: option.splits)
  from ws wd have step: "save_loop env (g # gs) b = save_loop env gs ?b2"
    by (simp add: act_seq_def act_bind_def ext_call_def)
  with Cons.prems have "fst (save_loop env gs ?b2) = Inr ()" by simp
  from Cons.IH [OF this] step show ?case by (simp add: persist_calls_def)
qed

lemma save_loop_order:
  "\<exists>evs. snd (save_loop env gs b) = b\<lparr>trace := trace b @ evs\<rparr> \<and> settings_then_data evs"
proof (induction gs arbitrary: b)
  case Nil
  have "snd (save_loop env [] b) = b\<lparr>trace := trace b @ []\<rparr>"
    by (simp add: act_return_def)
  moreover have "settings_then_data ([] :: 'a event list)" by simp
  ultimately show ?case by blast
next
  case (Cons g gs)
  show ?case
  proof (cases "raises env (WriteSettings g) (trace b)")
    case (Some e)
    then have "snd (save_loop env (g # gs) b) = b\<lparr>trace := trace b @ [WriteSettings g]\<rparr>"
      by (simp add: act_seq_def act_bind_def ext_call_def)
    moreover have "settings_then_data [WriteSettings g]" by simp
    ultimately show ?thesis by blast
  next
    case None
    note ws = None
    show ?thesis
    proof (cases "raises env (WriteData g) (trace b @ [WriteSettings g])")
      case (Some e)
      with ws have "snd (save_loop env (g # gs) b) =
          b\<lparr>trace := trace b @ [WriteSettings g, WriteData g]\<rparr>"
        by (simp add: act_seq_def act_bind_def ext_call_def)
      moreover have "settings_then_data [WriteSettings g, WriteData g]" by simp
      ultimately show ?thesis by blast
    next
      case None
      let ?b2 = "b\<lparr>trace := trace b @ [WriteSettings g, WriteData g]\<rparr>"
      from ws None have step: "save_loop env (g # gs) b = save_loop env gs ?b2"
        by (simp add: act_seq_def act_bind_def ext_call_def)
      from Cons.IH [of ?b2] obtain evs where
        evs: "snd (save_loop env gs ?b2) = ?b2\<lparr>trace := trace ?b2 @ evs\<rparr>"
          "settings_then_data evs"
        by blast
      have "snd (save_loop env (g # gs) b) =
          b\<lparr>trace := trace b @ (WriteSettings g # WriteData g # evs)\<rparr>"
        using step evs(1) by simp
      moreover have "settings_then_data (WriteSettings g # WriteData g # evs)"
        using evs(2) by simp
      ultimately show ?thesis by blast
    qed
  qed
qed

lemma count_persist_settings:
  "count_list (persist_calls gs) (WriteSettings g) = count_list gs g"
  by (induction gs) (auto simp: persist_calls_def)

lemma count_persist_data:
  "count_list (persist_calls gs) (WriteData g) = count_list gs g"
  by (induction gs) (auto simp: persist_calls_def)

lemma save_guild_unregistered:
  "map_of (custom_guilds b) (str_int guild_id) = None \<Longrightarrow>
   save_guild env guild_id b = (Inl (KeyError (JString (str_int guild_id))), b)"
  by (simp add: save_guild_def act_seq_def act_bind_def lookup_guild_def)

lemma save_guild_registered:
  "map_of (custom_guilds b) (str_int guild_id) = Some g \<Longrightarrow>
   save_guild env guild_id b =
     (case raises env (WriteSettings g) (trace b) of
        Some e \<Rightarrow> (Inl e, b\<lparr>trace := trace b @ [WriteSettings g]\<rparr>)
      | None \<Rightarrow>
          (case raises env (WriteData g) (trace b @ [WriteSettings g]) of
             Some e \<Rightarrow> (Inl e, b\<lparr>trace := trace b @ [WriteSettings g, WriteData g]\<rparr>)
           | None \<Rightarrow> (Inr (), b\<lparr>trace := trace b @ [WriteSettings g, WriteData g]\<rparr>)))"
  by (simp add: save_guild_def act_seq_def act_bind_def lookup_guild_def ext_call_def
      split: option.splits)

text \<open>
  C4: \<^verbatim>\<open>save_guild\<close> with an identifier that is not a key of the registry raises the
  key-lookup error and makes no persistence call (the bot and its trace are as before).
  With an identifier registered for guild \<open>g\<close>, whose \<^verbatim>\<open>write_settings\<close> returns, it calls
  \<^verbatim>\<open>write_settings\<close> of \<open>g\<close> once and \<^verbatim>\<open>write_data\<close> of \<open>g\<close> once, and nothing else; its
  result is the one of \<^verbatim>\<open>write_data\<close>.
\<close>

theorem save_guild_lookup_then_persist:
  "(map_of (custom_guilds b) (str_int guild_id) = None \<longrightarrow>
      save_guild env guild_id b = (Inl (KeyError (JString (str_int guild_id))), b))
   \<and> (map_of (custom_guilds b) (str_int guild_id) = Some g
        \<and> raises env (WriteSettings g) (trace b) = None \<longrightarrow>
      snd (save_guild env guild_id b) = b\<lparr>trace := trace b @ [WriteSettings g, WriteData g]\<rparr>
      \<and> fst (save_guild env guild_id b) =
          (case raises env (WriteData g) (trace b @ [WriteSettings g]) of
             None \<Rightarrow> Inr () | Some e \<Rightarrow> Inl e))"
proof (intro conjI impI)
  assume "map_of (custom_guilds b) (str_int guild_id) = None"
  then show "save_guild env guild_id b = (Inl (KeyError (JString (str_int guild_id))), b)"
    by (rule save_guild_unregistered)
next
  assume registered: "map_of (custom_guilds b) (str_int guild_id) = Some g
      \<and> raises env (WriteSettings g) (trace b) = None"
  then have run: "save_guild env guild_id b =
      (case raises env (WriteData g) (trace b @ [WriteSettings g]) of
         Some e \<Rightarrow> (Inl e, b\<lparr>trace := trace b @ [WriteSettings g, WriteData g]\<rparr>)
       | None \<Rightarrow> (Inr (), b\<lparr>trace := trace b @ [WriteSettings g, WriteData g]\<rparr>))"
    by (simp add: save_guild_registered)
  show "snd (save_guild env guild_id b) =
      b\<lparr>trace := trace b @ [WriteSettings g, WriteData g]\<rparr>"
    by (simp add: run split: option.split)
  show "fst (save_guild env guild_id b) =
      (case raises env (WriteData g) (trace b @ [WriteSettings g]) of
         None \<Rightarrow> Inr () | Some e \<Rightarrow> Inl e)"
    by (simp add: run split: option.split)
qed

theorem save_guild_lookup_then_persist_witness:
  "save_guild (example_env JNull) 3 example_bot = (Inl (KeyError (JString ''3'')), example_bot)
   \<and> save_guild (example_env JNull) 1 example_bot =
       (Inr (), example_bot\<lparr>trace := [WriteSettings ''alpha'', WriteData ''alpha'']\<rparr>)"
proof -
  have unregistered: "map_of (custom_guilds example_bot) (str_int 3) = None"
    by (simp add: example_bot_def str_int_3)
  have registered: "map_of (custom_guilds example_bot) (str_int 1) = Some ''alpha''"
    by (simp add: example_bot_def str_int_1)
  have returns: "raises (example_env JNull) (WriteSettings ''alpha'') (trace example_bot) = None"
    by (simp add: example_env_def)
  have data: "raises (example_env JNull) (WriteData ''alpha'')
      (trace example_bot @ [WriteSettings ''alpha'']) = None"
    by (simp add: example_env_def)
  have empty: "trace example_bot = []"
    by (simp add: example_bot_def)
  from save_guild_lookup_then_persist [of example_bot 3 "example_env JNull" "''alpha''"]
    unregistered
  have first: "save_guild (example_env JNull) 3 example_bot =
      (Inl (KeyError (JString ''3'')), example_bot)"
    by (simp add: str_int_3)
  from save_guild_lookup_then_persist [of example_bot 1 "example_env JNull" "''alpha''"]
    registered returns data empty
  have second: "save_guild (example_env JNull) 1 example_bot =
      (Inr (), example_bot\<lparr>trace := [WriteSettings ''alpha'', WriteData ''alpha'']\<rparr>)"
    by (simp add: prod_eq_iff)
  from first second show ?thesis by simp
qed

text \<open>
  C5: when no persistence call of a registered guild raises, \<^verbatim>\<open>save_all_guilds\<close> returns
  and its calls are exactly \<^verbatim>\<open>write_settings\<close> then \<^verbatim>\<open>write_data\<close> for each entry of the
  registry, in the registry's order: each call occurs as often as its guild is
  registered (once for a guild registered once), and an empty registry gives no call.
  Whenever \<^verbatim>\<open>save_all_guilds\<close> returns, its calls were these.
\<close>

theorem save_all_guilds_once_each:
  "((\<forall>g \<in> set (map snd (custom_guilds b)).
       \<forall>h. raises env (WriteSettings g) h = None \<and> raises env (WriteData g) h = None) \<longrightarrow>
      save_all_guilds env b =
        (Inr (), b\<lparr>trace := trace b @ persist_calls (map snd (custom_guilds b))\<rparr>))
   \<and> (fst (save_all_guilds env b) = Inr () \<longrightarrow>
      snd (save_all_guilds env b) =
        b\<lparr>trace := trace b @ persist_calls (map snd (custom_guilds b))\<rparr>)
   \<and> (\<forall>g. count_list (persist_calls (map snd (custom_guilds b))) (WriteSettings g) =
            count_list (map snd (custom_guilds b)) g
        \<and> count_list (persist_calls (map snd (custom_guilds b))) (WriteData g) =
            count_list (map snd (custom_guilds b)) g)
   \<and> (custom_guilds b = [] \<longrightarrow> save_all_guilds env b = (Inr (), b))"
proof -
  have "custom_guilds b = [] \<longrightarrow> save_all_guilds env b = (Inr (), b)"
    by (simp add: save_all_guilds_def act_return_def)
  moreover have "fst (save_all_guilds env b) = Inr () \<longrightarrow>
      snd (save_all_guilds env b) =
        b\<lparr>trace := trace b @ persist_calls (map snd (custom_guilds b))\<rparr>"
    using save_loop_normal [of env "map snd (custom_guilds b)" b]
    by (auto simp: save_all_guilds_def)
  ultimately show ?thesis
    using save_loop_returns [of "map snd (custom_guilds b)" env b]
    by (simp add: save_all_guilds_def count_persist_settings count_persist_data)
qed

theorem save_all_guilds_once_each_witness:
  "save_all_guilds (example_env JNull) example_bot =
     (Inr (), example_bot\<lparr>trace :=
        [WriteSettings ''alpha'', WriteData ''alpha'', WriteSettings ''beta'', WriteData ''beta'']\<rparr>)
   \<and> count_list (persist_calls [''alpha'', ''beta'']) (WriteSettings ''beta'') = 1
   \<and> count_list (persist_calls [''alpha'', ''beta'']) (WriteData ''alpha'') = 1
   \<and> save_all_guilds (example_env JNull) (example_bot\<lparr>custom_guilds := []\<rparr>) =
       (Inr (), example_bot\<lparr>custom_guilds := []\<rparr>)"
proof -
  have quiet: "\<forall>g \<in> set (map snd (custom_guilds example_bot)).
      \<forall>h. raises (example_env JNull) (WriteSettings g) h = None
        \<and> raises (example_env JNull) (WriteData g) h = None"
    by (simp add: example_env_def)
  have guilds: "map snd (custom_guilds example_bot) = [''alpha'', ''beta'']"
    by (simp add: example_bot_def)
  have empty: "trace example_bot = []"
    by (simp add: example_bot_def)
  have calls: "persist_calls [''alpha'', ''beta''] =
      [WriteSettings ''alpha'', WriteData ''alpha'', WriteSettings ''beta'', WriteData ''beta'']"
    by (simp add: persist_calls_def)
  from save_all_guilds_once_each [of example_bot "example_env JNull"] quiet
  have "save_all_guilds (example_env JNull) example_bot =
      (Inr (), example_bot\<lparr>trace := trace example_bot @
         persist_calls (map snd (custom_guilds example_bot))\<rparr>)"
    by blast
  then have full: "save_all_guilds (example_env JNull) example_bot =
      (Inr (), example_bot\<lparr>trace :=
        [WriteSettings ''alpha'', WriteData ''alpha'', WriteSettings ''beta'', WriteData ''beta'']\<rparr>)"
    by (simp add: guilds empty calls)
  have counts: "count_list (persist_calls [''alpha'', ''beta'']) (WriteSettings ''beta'') = 1
      \<and> count_list (persist_calls [''alpha'', ''beta'']) (WriteData ''alpha'') = 1"
    by (simp add: calls)
  have "custom_guilds (example_bot\<lparr>custom_guilds := []\<rparr>) = []"
    by simp
  with save_all_guilds_once_each [of "example_bot\<lparr>custom_guilds := []\<rparr>" "example_env JNull"]
  have none: "save_all_guilds (example_env JNull) (example_bot\<lparr>custom_guilds := []\<rparr>) =
      (Inr (), example_bot\<lparr>custom_guilds := []\<rparr>)"
    by blast
  from full counts none show ?thesis by simp
qed

text \<open>
  C10: in \<^verbatim>\<open>save_guild\<close> and in \<^verbatim>\<open>save_all_guilds\<close>, whatever the calls do, the events
  added to the trace are persistence calls in the fixed order: each \<^verbatim>\<open>write_data\<close>
  comes right after the \<^verbatim>\<open>write_settings\<close> of the same guild.
\<close>

theorem persistence_order:
  "(\<exists>evs. snd (save_guild env guild_id b) = b\<lparr>trace := trace b @ evs\<rparr>
      \<and> settings_then_data evs)
   \<and> (\<exists>evs. snd (save_all_guilds env b) = b\<lparr>trace := trace b @ evs\<rparr>
      \<and> settings_then_data evs)"
proof
  show "\<exists>evs. snd (save_guild env guild_id b) = b\<lparr>trace := trace b @ evs\<rparr>
      \<and> settings_then_data evs"
  proof (cases "map_of (custom_guilds b) (str_int guild_id)")
    case None
    then have "snd (save_guild env guild_id b) = b\<lparr>trace := trace b @ []\<rparr>"
      by (simp add: save_guild_unregistered)
    moreover have "settings_then_data ([] :: 'a event list)" by simp
    ultimately show ?thesis by blast
  next
    case (Some g)
    show ?thesis
    proof (cases "raises env (WriteSettings g) (trace b)")
      case None
      with Some have "snd (save_guild env guild_id b) =
          b\<lparr>trace := trace b @ [WriteSettings g, WriteData g]\<rparr>"
        by (simp add: save_guild_registered split: option.splits)
      moreover have "settings_then_data [WriteSettings g, WriteData g]" by simp
      ultimately show ?thesis by blast
    next
      case (Some e)
      with \<open>map_of (custom_guilds b) (str_int guild_id) = Some g\<close>
      have "snd (save_guild env guild_id b) = b\<lparr>trace := trace b @ [WriteSettings g]\<rparr>"
        by (simp add: save_guild_registered)
      moreover have "settings_then_data [WriteSettings g]" by simp
      ultimately show ?thesis by blast
    qed
  qed
next
  show "\<exists>evs. snd (save_all_guilds env b) = b\<lparr>trace := trace b @ evs\<rparr>
      \<and> settings_then_data evs"
    using save_loop_order [of env "map snd (custom_guilds b)" b]
    by (simp add: save_all_guilds_def)
qed

section \<open>One-time initialization\<close>

lemma no_init_refl: "no_init b b"
  by (simp add: no_init_def)

lemma no_init_trans: "no_init b b' \<Longrightarrow> no_init b' b'' \<Longrightarrow> no_init b b''"
  by (auto simp: no_init_def)

lemma no_init_bind:
  assumes "\<And>b. no_init b (snd (m b))" and "\<And>x b. no_init b (snd (f x b))"
  shows "no_init b (snd (act_bind m f b))"
proof (cases "m b")
  case (Pair r b')
  show ?thesis
  proof (cases r)
    case (Inl e)
    with Pair assms(1) [of b] show ?thesis by (simp add: act_bind_def)
  next
    case (Inr x)
    with Pair have "act_bind m f b = f x b'" by (simp add: act_bind_def)
    moreover from Pair assms(1) [of b] have "no_init b b'" by simp
    ultimately show ?thesis using assms(2) [of b' x] by (auto intro: no_init_trans)
  qed
qed

lemma no_init_seq:
  assumes "\<And>b. no_init b (snd (m b))" and "\<And>b. no_init b (snd (n b))"
  shows "no_init b (snd (act_seq m n b))"
  unfolding act_seq_def using assms by (rule no_init_bind)

lemma no_init_log: "no_init b (snd (log origin message b))"
  by (simp add: no_init_def log_def)

lemma no_init_return: "no_init b (snd (act_return x b))"
  by (simp add: no_init_def act_return_def)

lemma no_init_lift: "no_init b (snd (act_lift r b))"
  by (simp add: no_init_def act_lift_def)

lemma no_init_ext_call:
  "ev \<noteq> WaitUntilReady \<Longrightarrow> ev \<noteq> LoadGuilds \<Longrightarrow> no_init b (snd (ext_call env ev b))"
  by (simp add: no_init_def ext_call_def split: option.split)

lemma no_init_assign:
  "(\<And>b. custom_ready (f b) = custom_ready b \<and> trace (f b) = trace b) \<Longrightarrow>
   no_init b (snd (assign f b))"
  by (simp add: no_init_def assign_def)

lemma no_init_set_activity: "no_init b (snd (set_activity env activity b))"
  by (simp add: set_activity_def no_init_ext_call)

lemma no_init_load_internal_settings: "no_init b (snd (load_internal_settings env path b))"
  unfolding load_internal_settings_def
  by (auto intro!: no_init_bind no_init_seq no_init_log no_init_return no_init_lift)

lemma no_init_set_internal_settings: "no_init b (snd (set_internal_settings env path b))"
  unfolding set_internal_settings_def
  by (intro no_init_seq no_init_bind no_init_log no_init_load_internal_settings)
     (auto intro!: no_init_bind no_init_seq no_init_log no_init_lift no_init_assign)

lemma no_init_lookup_guild: "no_init b (snd (lookup_guild guild_id b))"
  by (simp add: no_init_def lookup_guild_def split: option.split)

lemma no_init_save_guild: "no_init b (snd (save_guild env guild_id b))"
  unfolding save_guild_def
  by (intro no_init_seq no_init_bind no_init_lookup_guild no_init_ext_call) simp_all

lemma no_init_save_loop: "no_init b (snd (save_loop env gs b))"
proof (induction gs arbitrary: b)
  case Nil
  show ?case by (simp add: no_init_return)
next
  case (Cons g gs)
  show ?case
    unfolding save_loop.simps
    by (intro no_init_seq no_init_ext_call Cons.IH) simp_all
qed

lemma no_init_save_all_guilds: "no_init b (snd (save_all_guilds env b))"
  by (simp add: save_all_guilds_def no_init_save_loop)

lemma no_init_save: "no_init b (snd (save env b))"
  unfolding save_def by (intro no_init_seq no_init_log no_init_save_all_guilds)

lemma no_init_counts:
  assumes "no_init b b'"
  shows "count_list (trace b') WaitUntilReady = count_list (trace b) WaitUntilReady"
    and "count_list (trace b') LoadGuilds = count_list (trace b) LoadGuilds"
    and "custom_ready b' = custom_ready b"
  using assms by (auto simp: no_init_def)

lemma prepare_data_ready: "custom_ready b \<Longrightarrow> prepare_data env b = (Inr (), b)"
  by (simp add: prepare_data_def act_return_def)

lemma on_ready_ready:
  "custom_ready b \<Longrightarrow> on_ready env b = (Inr (), b\<lparr>trace := trace b @ [Log ''Bot'' ''Ready'']\<rparr>)"
  by (simp add: on_ready_def act_seq_def act_bind_def log_def prepare_data_ready)

lemma prepare_data_first:
  assumes "\<not> custom_ready b"
  shows "prepare_data env b =
    (case raises env WaitUntilReady (trace b @ [Log ''Bot'' ''Waiting...'']) of
       Some e \<Rightarrow>
         (Inl e, b\<lparr>custom_ready := True,
            trace := trace b @ [Log ''Bot'' ''Waiting...'', WaitUntilReady]\<rparr>)
     | None \<Rightarrow>
         (case load_guilds_ext env (custom_guilds b) of
            (Some e, r) \<Rightarrow>
              (Inl e, b\<lparr>custom_guilds := r, custom_ready := True,
                 trace := trace b @ [Log ''Bot'' ''Waiting...'', WaitUntilReady, LoadGuilds]\<rparr>)
          | (None, r) \<Rightarrow>
              (case raises env (body_presence b)
                  (trace b @ [Log ''Bot'' ''Waiting...'', WaitUntilReady, LoadGuilds]
                     @ body_lines b) of
                 None \<Rightarrow> Inr () | Some e \<Rightarrow> Inl e,
               b\<lparr>custom_guilds := r, custom_ready := True,
                 trace := trace b @ [Log ''Bot'' ''Waiting...'', WaitUntilReady, LoadGuilds]
                   @ body_lines b @ [body_presence b]\<rparr>)))"
  using assms
  by (simp add: prepare_data_def act_seq_def act_bind_def assign_def log_def ext_call_def
      load_guilds_def set_activity_def body_lines_def body_presence_def
      split: option.splits prod.splits)

lemma body_lines_counts:
  "count_list (body_lines b) WaitUntilReady = 0" "count_list (body_lines b) LoadGuilds = 0"
  "filter is_presence (body_lines b) = []"
  by (simp_all add: body_lines_def split: option.split)

lemma prepare_data_first_ready:
  "\<not> custom_ready b \<Longrightarrow> custom_ready (snd (prepare_data env b))"
  by (simp add: prepare_data_first split: option.splits prod.splits)

lemma prepare_data_first_entered:
  "\<not> custom_ready b \<Longrightarrow>
   count_list (trace (snd (prepare_data env b))) WaitUntilReady =
     count_list (trace b) WaitUntilReady + 1"
  by (simp add: prepare_data_first body_lines_counts body_presence_def
      split: option.splits prod.splits)

lemma prepare_data_first_loads:
  "\<not> custom_ready b \<Longrightarrow>
   count_list (trace (snd (prepare_data env b))) LoadGuilds \<le> count_list (trace b) LoadGuilds + 1"
  by (simp add: prepare_data_first body_lines_counts body_presence_def
      split: option.splits prod.splits)

lemma exec_ready:
  assumes "custom_ready b"
  shows "no_init b (exec env c b)"
proof (cases c)
  case OnReady
  with assms show ?thesis by (simp add: on_ready_ready no_init_def)
next
  case PrepareData
  with assms show ?thesis by (simp add: prepare_data_ready no_init_refl)
qed (simp_all add: on_connect_def on_disconnect_def on_resumed_def get_custom_guild_def
      is_admin_def no_init_log no_init_save no_init_set_activity no_init_set_internal_settings
      no_init_save_guild no_init_save_all_guilds no_init_return no_init_lookup_guild)

lemma exec_other:
  assumes "c \<noteq> OnReady" and "c \<noteq> PrepareData"
  shows "no_init b (exec env c b)"
  using assms
  by (cases c)
     (simp_all add: on_connect_def on_disconnect_def on_resumed_def get_custom_guild_def
      is_admin_def no_init_log no_init_save no_init_set_activity no_init_set_internal_settings
      no_init_save_guild no_init_save_all_guilds no_init_return no_init_lookup_guild)

lemma exec_all_ready: "custom_ready b \<Longrightarrow> no_init b (exec_all env cs b)"
proof (induction cs arbitrary: b)
  case Nil
  show ?case by (simp add: exec_all_def no_init_refl)
next
  case (Cons c cs)
  from Cons.prems have step: "no_init b (exec env c b)" by (rule exec_ready)
  then have "custom_ready (exec env c b)" using Cons.prems by (simp add: no_init_def)
  then have "no_init (exec env c b) (exec_all env cs (exec env c b))" by (rule Cons.IH)
  with step have "no_init b (exec_all env cs (exec env c b))" by (rule no_init_trans)
  then show ?case by (simp add: exec_all_def)
qed

lemma exec_first:
  assumes "\<not> custom_ready b" and "c = OnReady \<or> c = PrepareData"
  shows "custom_ready (exec env c b)"
    and "count_list (trace (exec env c b)) WaitUntilReady = count_list (trace b) WaitUntilReady + 1"
    and "count_list (trace (exec env c b)) LoadGuilds \<le> count_list (trace b) LoadGuilds + 1"
proof -
  let ?b1 = "b\<lparr>trace := trace b @ [Log ''Bot'' ''Ready'']\<rparr>"
  have on_ready: "on_ready env b = prepare_data env ?b1"
    by (simp add: on_ready_def act_seq_def act_bind_def log_def)
  have fresh: "\<not> custom_ready ?b1" using assms(1) by simp
  show "custom_ready (exec env c b)"
    using assms prepare_data_first_ready [of b env] prepare_data_first_ready [OF fresh, of env]
    by (auto simp: on_ready)
  show "count_list (trace (exec env c b)) WaitUntilReady = count_list (trace b) WaitUntilReady + 1"
    using assms prepare_data_first_entered [of b env] prepare_data_first_entered [OF fresh, of env]
    by (auto simp: on_ready)
  show "count_list (trace (exec env c b)) LoadGuilds \<le> count_list (trace b) LoadGuilds + 1"
    using assms prepare_data_first_loads [of b env] prepare_data_first_loads [OF fresh, of env]
    by (auto simp: on_ready)
qed

lemma exec_all_first:
  assumes "\<not> custom_ready b" and "OnReady \<in> set cs \<or> PrepareData \<in> set cs"
  shows "custom_ready (exec_all env cs b)
    \<and> count_list (trace (exec_all env cs b)) WaitUntilReady =
        count_list (trace b) WaitUntilReady + 1
    \<and> count_list (trace (exec_all env cs b)) LoadGuilds \<le> count_list (trace b) LoadGuilds + 1"
  using assms
proof (induction cs arbitrary: b)
  case Nil
  then show ?case by simp
next
  case (Cons c cs)
  have unfold: "exec_all env (c # cs) b = exec_all env cs (exec env c b)"
    by (simp add: exec_all_def)
  show ?case
  proof (cases "c = OnReady \<or> c = PrepareData")
    case True
    note first = exec_first [OF Cons.prems(1) True, of env]
    from first(1) have "no_init (exec env c b) (exec_all env cs (exec env c b))"
      by (rule exec_all_ready)
    from no_init_counts [OF this] first show ?thesis
      by (simp add: unfold)
  next
    case False
    then have "no_init b (exec env c b)" by (simp add: exec_other)
    note same = no_init_counts [OF this]
    from same(3) Cons.prems(1) have fresh: "\<not> custom_ready (exec env c b)" by simp
    from False Cons.prems(2) have "OnReady \<in> set cs \<or> PrepareData \<in> set cs" by auto
    from Cons.IH [OF fresh this] same show ?thesis
      by (simp add: unfold)
  qed
qed

lemma on_ready_repeat:
  "custom_ready b \<Longrightarrow>
   exec_all env (replicate n OnReady) b =
     b\<lparr>trace := trace b @ replicate n (Log ''Bot'' ''Ready'')\<rparr>"
proof (induction n arbitrary: b)
  case 0
  show ?case by (simp add: exec_all_def)
next
  case (Suc n)
  let ?b1 = "b\<lparr>trace := trace b @ [Log ''Bot'' ''Ready'']\<rparr>"
  from Suc.prems have "exec env OnReady b = ?b1" by (simp add: on_ready_ready)
  then have "exec_all env (replicate (Suc n) OnReady) b = exec_all env (replicate n OnReady) ?b1"
    by (simp add: exec_all_def)
  moreover from Suc.prems have "custom_ready ?b1" by simp
  ultimately show ?case using Suc.IH [of ?b1] by simp
qed

lemma on_ready_first_quiet:
  assumes "\<not> custom_ready b"
    and "raises env WaitUntilReady (trace b @ [Log ''Bot'' ''Ready'', Log ''Bot'' ''Waiting...'']) = None"
    and "fst (load_guilds_ext env (custom_guilds b)) = None"
  shows "custom_ready (exec env OnReady b)"
    and "trace (exec env OnReady b) =
      trace b @ [Log ''Bot'' ''Ready'', Log ''Bot'' ''Waiting...'', WaitUntilReady, LoadGuilds]
        @ body_lines b @ [body_presence b]"
proof -
  let ?b1 = "b\<lparr>trace := trace b @ [Log ''Bot'' ''Ready'']\<rparr>"
  have on_ready: "on_ready env b = prepare_data env ?b1"
    by (simp add: on_ready_def act_seq_def act_bind_def log_def)
  have fresh: "\<not> custom_ready ?b1" using assms(1) by simp
  have same: "body_lines ?b1 = body_lines b" "body_presence ?b1 = body_presence b"
    by (simp_all add: body_lines_def body_presence_def split: option.split)
  obtain r where r: "load_guilds_ext env (custom_guilds b) = (None, r)"
    using assms(3) by (cases "load_guilds_ext env (custom_guilds b)") simp
  show "custom_ready (exec env OnReady b)"
    using prepare_data_first_ready [OF fresh, of env] by (simp add: on_ready)
  show "trace (exec env OnReady b) =
      trace b @ [Log ''Bot'' ''Ready'', Log ''Bot'' ''Waiting...'', WaitUntilReady, LoadGuilds]
        @ body_lines b @ [body_presence b]"
    using assms(2) r by (simp add: on_ready prepare_data_first [OF fresh] same)
qed

lemma on_ready_repeat_quiet:
  assumes "\<not> custom_ready b" and "0 < n"
    and "raises env WaitUntilReady (trace b @ [Log ''Bot'' ''Ready'', Log ''Bot'' ''Waiting...'']) = None"
    and "fst (load_guilds_ext env (custom_guilds b)) = None"
  shows "trace (exec_all env (replicate n OnReady) b) =
      trace b @ [Log ''Bot'' ''Ready'', Log ''Bot'' ''Waiting...'', WaitUntilReady, LoadGuilds]
        @ body_lines b @ [body_presence b] @ replicate (n - 1) (Log ''Bot'' ''Ready'')"
proof -
  from assms(2) obtain m where n: "n = Suc m" by (cases n) auto
  have "exec_all env (replicate n OnReady) b =
      exec_all env (replicate m OnReady) (exec env OnReady b)"
    by (simp add: n exec_all_def)
  also have "\<dots> = (exec env OnReady b)
      \<lparr>trace := trace (exec env OnReady b) @ replicate m (Log ''Bot'' ''Ready'')\<rparr>"
    using on_ready_first_quiet(1) [OF assms(1,3,4)] by (rule on_ready_repeat)
  finally show ?thesis
    using on_ready_first_quiet(2) [OF assms(1,3,4)] by (simp add: n)
qed


text \<open>
  C1: the readiness flag, once true, stays true under every sequence of calls of the
  bot's methods, and \<^verbatim>\<open>prepare_data\<close> with the flag set returns at once and changes
  nothing. From a bot whose flag is not set, a sequence of calls with at least one
  \<^verbatim>\<open>on_ready\<close> (or \<^verbatim>\<open>prepare_data\<close>) enters the initialization body exactly once (one
  \<^verbatim>\<open>wait_until_ready\<close>) and loads the guilds at most once; when \<^verbatim>\<open>wait_until_ready\<close> and
  \<^verbatim>\<open>load_guilds\<close> return, \<open>n > 0\<close> deliveries of "ready" load the guilds exactly once
  and set the presence exactly once.
\<close>

theorem initialization_once:
  "(custom_ready b \<longrightarrow> custom_ready (exec_all env cs b))
   \<and> (custom_ready b \<longrightarrow> prepare_data env b = (Inr (), b))
   \<and> (\<not> custom_ready b \<and> (OnReady \<in> set cs \<or> PrepareData \<in> set cs) \<longrightarrow>
        custom_ready (exec_all env cs b)
        \<and> count_list (trace (exec_all env cs b)) WaitUntilReady =
            count_list (trace b) WaitUntilReady + 1
        \<and> count_list (trace (exec_all env cs b)) LoadGuilds \<le>
            count_list (trace b) LoadGuilds + 1)
   \<and> (\<not> custom_ready b \<and> 0 < n
        \<and> raises env WaitUntilReady
            (trace b @ [Log ''Bot'' ''Ready'', Log ''Bot'' ''Waiting...'']) = None
        \<and> fst (load_guilds_ext env (custom_guilds b)) = None \<longrightarrow>
        count_list (trace (exec_all env (replicate n OnReady) b)) LoadGuilds =
            count_list (trace b) LoadGuilds + 1
        \<and> length (filter is_presence (trace (exec_all env (replicate n OnReady) b))) =
            length (filter is_presence (trace b)) + 1)"
proof (intro conjI impI)
  assume "custom_ready b"
  then show "custom_ready (exec_all env cs b)"
    using no_init_counts(3) [OF exec_all_ready [of b env cs]] by simp
next
  assume "custom_ready b"
  then show "prepare_data env b = (Inr (), b)" by (rule prepare_data_ready)
next
  assume a: "\<not> custom_ready b \<and> (OnReady \<in> set cs \<or> PrepareData \<in> set cs)"
  from exec_all_first [of b cs env] a show "custom_ready (exec_all env cs b)" by blast
  from exec_all_first [of b cs env] a
  show "count_list (trace (exec_all env cs b)) WaitUntilReady =
      count_list (trace b) WaitUntilReady + 1" by blast
  from exec_all_first [of b cs env] a
  show "count_list (trace (exec_all env cs b)) LoadGuilds \<le> count_list (trace b) LoadGuilds + 1"
    by blast
next
  assume a: "\<not> custom_ready b \<and> 0 < n
      \<and> raises env WaitUntilReady
          (trace b @ [Log ''Bot'' ''Ready'', Log ''Bot'' ''Waiting...'']) = None
      \<and> fst (load_guilds_ext env (custom_guilds b)) = None"
  then have t: "trace (exec_all env (replicate n OnReady) b) =
      trace b @ [Log ''Bot'' ''Ready'', Log ''Bot'' ''Waiting...'', WaitUntilReady, LoadGuilds]
        @ body_lines b @ [body_presence b] @ replicate (n - 1) (Log ''Bot'' ''Ready'')"
    by (simp add: on_ready_repeat_quiet)
  show "count_list (trace (exec_all env (replicate n OnReady) b)) LoadGuilds =
      count_list (trace b) LoadGuilds + 1"
    by (simp add: t body_lines_counts body_presence_def)
  show "length (filter is_presence (trace (exec_all env (replicate n OnReady) b))) =
      length (filter is_presence (trace b)) + 1"
    by (simp add: t body_lines_counts body_presence_def)
qed

theorem initialization_once_witness:
  "custom_ready (exec_all (example_env JNull) [OnConnect, OnReady, Save, OnReady] example_bot)
   \<and> count_list
        (trace (exec_all (example_env JNull) [OnConnect, OnReady, Save, OnReady] example_bot))
        WaitUntilReady = 1
   \<and> prepare_data (example_env JNull) (example_bot\<lparr>custom_ready := True\<rparr>) =
        (Inr (), example_bot\<lparr>custom_ready := True\<rparr>)
   \<and> count_list (trace (exec_all (example_env JNull) (replicate 3 OnReady) example_bot))
        LoadGuilds = 1
   \<and> length (filter is_presence
        (trace (exec_all (example_env JNull) (replicate 3 OnReady) example_bot))) = 1"
proof -
  have fresh: "\<not> custom_ready example_bot" and empty: "trace example_bot = []"
    by (simp_all add: example_bot_def)
  have delivered: "OnReady \<in> set [OnConnect, OnReady, Save, OnReady]"
    by simp
  have waits: "raises (example_env JNull) WaitUntilReady
      (trace example_bot @ [Log ''Bot'' ''Ready'', Log ''Bot'' ''Waiting...'']) = None"
    by (simp add: example_env_def)
  have loads: "fst (load_guilds_ext (example_env JNull) (custom_guilds example_bot)) = None"
    by (simp add: example_env_def)
  have set: "custom_ready (example_bot\<lparr>custom_ready := True\<rparr>)"
    by simp
  from initialization_once
    [of example_bot "example_env JNull" "[OnConnect, OnReady, Save, OnReady]" 3]
    fresh delivered waits loads
  have "custom_ready (exec_all (example_env JNull) [OnConnect, OnReady, Save, OnReady] example_bot)
    \<and> count_list
        (trace (exec_all (example_env JNull) [OnConnect, OnReady, Save, OnReady] example_bot))
        WaitUntilReady = 1
    \<and> count_list (trace (exec_all (example_env JNull) (replicate 3 OnReady) example_bot))
        LoadGuilds = 1
    \<and> length (filter is_presence
        (trace (exec_all (example_env JNull) (replicate 3 OnReady) example_bot))) = 1"
    by (simp add: empty)
  moreover from initialization_once
    [of "example_bot\<lparr>custom_ready := True\<rparr>" "example_env JNull" "[]" 0] set
  have "prepare_data (example_env JNull) (example_bot\<lparr>custom_ready := True\<rparr>) =
      (Inr (), example_bot\<lparr>custom_ready := True\<rparr>)"
    by blast
  ultimately show ?thesis by simp
qed

text \<open>
  C9: \<^verbatim>\<open>prepare_data\<close> on a bot whose flag is not set leaves the flag set whatever the
  body does, also when \<^verbatim>\<open>wait_until_ready\<close> or \<^verbatim>\<open>load_guilds\<close> raises (then the rest of
  the body is not run). Afterwards every further "ready" only prints its line, and no
  sequence of calls waits for readiness or loads the guilds again: initialization is
  attempted once and not retried.
\<close>

theorem flag_set_before_body:
  "\<not> custom_ready b \<longrightarrow>
     custom_ready (snd (prepare_data env b))
     \<and> exec_all env (replicate n OnReady) (snd (prepare_data env b)) =
         (snd (prepare_data env b))
           \<lparr>trace := trace (snd (prepare_data env b)) @ replicate n (Log ''Bot'' ''Ready'')\<rparr>
     \<and> count_list (trace (exec_all env cs (snd (prepare_data env b)))) WaitUntilReady =
         count_list (trace (snd (prepare_data env b))) WaitUntilReady
     \<and> count_list (trace (exec_all env cs (snd (prepare_data env b)))) LoadGuilds =
         count_list (trace (snd (prepare_data env b))) LoadGuilds
     \<and> (raises env WaitUntilReady (trace b @ [Log ''Bot'' ''Waiting...'']) = Some e \<longrightarrow>
         prepare_data env b =
           (Inl e, b\<lparr>custom_ready := True,
              trace := trace b @ [Log ''Bot'' ''Waiting...'', WaitUntilReady]\<rparr>))
     \<and> (raises env WaitUntilReady (trace b @ [Log ''Bot'' ''Waiting...'']) = None
         \<and> load_guilds_ext env (custom_guilds b) = (Some e, r) \<longrightarrow>
         prepare_data env b =
           (Inl e, b\<lparr>custom_guilds := r, custom_ready := True,
              trace := trace b @ [Log ''Bot'' ''Waiting...'', WaitUntilReady, LoadGuilds]\<rparr>))"
proof (intro impI)
  assume fresh: "\<not> custom_ready b"
  let ?b' = "snd (prepare_data env b)"
  have ready: "custom_ready ?b'" using fresh by (rule prepare_data_first_ready)
  note later = no_init_counts [OF exec_all_ready [OF ready, of env cs]]
  show "custom_ready ?b'
     \<and> exec_all env (replicate n OnReady) ?b' =
         ?b'\<lparr>trace := trace ?b' @ replicate n (Log ''Bot'' ''Ready'')\<rparr>
     \<and> count_list (trace (exec_all env cs ?b')) WaitUntilReady =
         count_list (trace ?b') WaitUntilReady
     \<and> count_list (trace (exec_all env cs ?b')) LoadGuilds = count_list (trace ?b') LoadGuilds
     \<and> (raises env WaitUntilReady (trace b @ [Log ''Bot'' ''Waiting...'']) = Some e \<longrightarrow>
         prepare_data env b =
           (Inl e, b\<lparr>custom_ready := True,
              trace := trace b @ [Log ''Bot'' ''Waiting...'', WaitUntilReady]\<rparr>))
     \<and> (raises env WaitUntilReady (trace b @ [Log ''Bot'' ''Waiting...'']) = None
         \<and> load_guilds_ext env (custom_guilds b) = (Some e, r) \<longrightarrow>
         prepare_data env b =
           (Inl e, b\<lparr>custom_guilds := r, custom_ready := True,
              trace := trace b @ [Log ''Bot'' ''Waiting...'', WaitUntilReady, LoadGuilds]\<rparr>))"
    using ready later(1,2) on_ready_repeat [OF ready, of env n]
    by (simp add: prepare_data_first [OF fresh])
qed

theorem flag_set_before_body_witness:
  "prepare_data (failing_env JNull) example_bot =
     (Inl (External ''closed''),
      example_bot\<lparr>custom_ready := True,
        trace := [Log ''Bot'' ''Waiting...'', WaitUntilReady]\<rparr>)
   \<and> exec_all (failing_env JNull) (replicate 2 OnReady)
       (snd (prepare_data (failing_env JNull) example_bot)) =
     example_bot\<lparr>custom_ready := True,
       trace := [Log ''Bot'' ''Waiting...'', WaitUntilReady,
                 Log ''Bot'' ''Ready'', Log ''Bot'' ''Ready'']\<rparr>"
proof -
  have fresh: "\<not> custom_ready example_bot" and empty: "trace example_bot = []"
    by (simp_all add: example_bot_def)
  have fails: "raises (failing_env JNull) WaitUntilReady
      (trace example_bot @ [Log ''Bot'' ''Waiting...'']) = Some (External ''closed'')"
    by (simp add: failing_env_def example_env_def)
  note inst = flag_set_before_body
    [of example_bot "failing_env JNull" 2 "[]" "External ''closed''" "[]"]
  from inst fresh fails
  have first: "prepare_data (failing_env JNull) example_bot =
     (Inl (External ''closed''),
      example_bot\<lparr>custom_ready := True,
        trace := [Log ''Bot'' ''Waiting...'', WaitUntilReady]\<rparr>)"
    by (simp add: empty)
  from inst fresh
  have "exec_all (failing_env JNull) (replicate 2 OnReady)
       (snd (prepare_data (failing_env JNull) example_bot)) =
      (snd (prepare_data (failing_env JNull) example_bot))
        \<lparr>trace := trace (snd (prepare_data (failing_env JNull) example_bot))
           @ replicate 2 (Log ''Bot'' ''Ready'')\<rparr>"
    by blast
  with first show ?thesis by (simp add: numeral_2_eq_2)
qed

text \<open>
  C8: in the first \<^verbatim>\<open>prepare_data\<close>, once \<^verbatim>\<open>wait_until_ready\<close> and \<^verbatim>\<open>load_guilds\<close> have
  returned: without a user the bot prints the failure line and sets the presence
  \<^verbatim>\<open>ERROR\<close>, and \<^verbatim>\<open>prepare_data\<close> raises nothing of its own (its result is the one of
  \<^verbatim>\<open>change_presence\<close>); with a user it prints two lines and sets the presence to the
  stored activity string. \<^verbatim>\<open>set_activity\<close> with the empty string uses the stored activity
  string, with another string that string.
\<close>

theorem presence_after_initialization:
  "(\<not> custom_ready b
      \<and> raises env WaitUntilReady (trace b @ [Log ''Bot'' ''Waiting...'']) = None
      \<and> load_guilds_ext env (custom_guilds b) = (None, r)
      \<and> user b = None \<longrightarrow>
      snd (prepare_data env b) =
        b\<lparr>custom_guilds := r, custom_ready := True,
          trace := trace b @
            [Log ''Bot'' ''Waiting...'', WaitUntilReady, LoadGuilds,
             Log ''Bot'' ''Failed to get the user data'',
             ChangePresence (JString ''ERROR'')]\<rparr>
      \<and> fst (prepare_data env b) =
          (case raises env (ChangePresence (JString ''ERROR''))
                 (trace b @ [Log ''Bot'' ''Waiting...'', WaitUntilReady, LoadGuilds,
                    Log ''Bot'' ''Failed to get the user data'']) of
             None \<Rightarrow> Inr () | Some e \<Rightarrow> Inl e))
   \<and> (\<not> custom_ready b
      \<and> raises env WaitUntilReady (trace b @ [Log ''Bot'' ''Waiting...'']) = None
      \<and> load_guilds_ext env (custom_guilds b) = (None, r)
      \<and> user b = Some u \<longrightarrow>
      snd (prepare_data env b) =
        b\<lparr>custom_guilds := r, custom_ready := True,
          trace := trace b @
            [Log ''Bot'' ''Waiting...'', WaitUntilReady, LoadGuilds,
             Log ''Bot'' (name b @ '' '' @ version b @ '' ready to operate''),
             Log ''Bot'' (''Logged as '' @ fst u @ '', with the id: '' @ str_int (snd u)),
             ChangePresence (activity_str b)]\<rparr>
      \<and> fst (prepare_data env b) =
          (case raises env (ChangePresence (activity_str b))
                 (trace b @ [Log ''Bot'' ''Waiting...'', WaitUntilReady, LoadGuilds,
                    Log ''Bot'' (name b @ '' '' @ version b @ '' ready to operate''),
                    Log ''Bot''
                      (''Logged as '' @ fst u @ '', with the id: '' @ str_int (snd u))]) of
             None \<Rightarrow> Inr () | Some e \<Rightarrow> Inl e))
   \<and> snd (set_activity env [] b) = b\<lparr>trace := trace b @ [ChangePresence (activity_str b)]\<rparr>
   \<and> (activity \<noteq> [] \<longrightarrow>
      snd (set_activity env activity b) =
        b\<lparr>trace := trace b @ [ChangePresence (JString activity)]\<rparr>)"
  by (simp add: prepare_data_first body_lines_def body_presence_def set_activity_def
      ext_call_def split: option.splits)

theorem presence_after_initialization_witness:
  "prepare_data (example_env JNull) example_bot =
     (Inr (),
      example_bot\<lparr>custom_guilds := [(''1'', ''alpha''), (''2'', ''beta''), (''7'', ''gamma'')],
        custom_ready := True,
        trace := [Log ''Bot'' ''Waiting...'', WaitUntilReady, LoadGuilds,
                  Log ''Bot'' ''Failed to get the user data'',
                  ChangePresence (JString ''ERROR'')]\<rparr>)
   \<and> snd (prepare_data (example_env JNull) (example_bot\<lparr>user := Some (''bot'', 1)\<rparr>)) =
      example_bot\<lparr>custom_guilds := [(''1'', ''alpha''), (''2'', ''beta''), (''7'', ''gamma'')],
        custom_ready := True, user := Some (''bot'', 1),
        trace := [Log ''Bot'' ''Waiting...'', WaitUntilReady, LoadGuilds,
                  Log ''Bot'' ''Bot 1.0 ready to operate'',
                  Log ''Bot'' ''Logged as bot, with the id: 1'',
                  ChangePresence (JString ''chess'')]\<rparr>
   \<and> snd (set_activity (example_env JNull) ''away'' example_bot) =
      example_bot\<lparr>trace := [ChangePresence (JString ''away'')]\<rparr>"
proof -
  let ?r = "[(''1'', ''alpha''), (''2'', ''beta''), (''7'', ''gamma'')]"
  let ?known = "example_bot\<lparr>user := Some (''bot'', 1)\<rparr>"
  have fresh: "\<not> custom_ready example_bot" "\<not> custom_ready ?known"
    and empty: "trace example_bot = []" "trace ?known = []"
    and nobody: "user example_bot = None" and somebody: "user ?known = Some (''bot'', 1)"
    and fields: "name ?known = ''Bot''" "version ?known = ''1.0''"
      "activity_str ?known = JString ''chess''"
    by (simp_all add: example_bot_def)
  have waits: "\<And>h. raises (example_env JNull) WaitUntilReady h = None"
    and presence: "\<And>a h. raises (example_env JNull) (ChangePresence a) h = None"
    by (simp_all add: example_env_def)
  have loads: "load_guilds_ext (example_env JNull) (custom_guilds example_bot) = (None, ?r)"
    "load_guilds_ext (example_env JNull) (custom_guilds ?known) = (None, ?r)"
    by (simp_all add: example_env_def example_bot_def)
  from presence_after_initialization
    [of example_bot "example_env JNull" ?r "(''bot'', 1)" "''away''"]
    fresh(1) waits loads(1) nobody presence
  have first: "prepare_data (example_env JNull) example_bot =
     (Inr (),
      example_bot\<lparr>custom_guilds := ?r, custom_ready := True,
        trace := [Log ''Bot'' ''Waiting...'', WaitUntilReady, LoadGuilds,
                  Log ''Bot'' ''Failed to get the user data'',
                  ChangePresence (JString ''ERROR'')]\<rparr>)"
    and third: "snd (set_activity (example_env JNull) ''away'' example_bot) =
      example_bot\<lparr>trace := [ChangePresence (JString ''away'')]\<rparr>"
    by (simp_all add: empty prod_eq_iff)
  from presence_after_initialization
    [of ?known "example_env JNull" ?r "(''bot'', 1)" "''away''"]
    fresh(2) waits loads(2) somebody
  have second: "snd (prepare_data (example_env JNull) ?known) =
      example_bot\<lparr>custom_guilds := ?r, custom_ready := True, user := Some (''bot'', 1),
        trace := [Log ''Bot'' ''Waiting...'', WaitUntilReady, LoadGuilds,
                  Log ''Bot'' ''Bot 1.0 ready to operate'',
                  Log ''Bot'' ''Logged as bot, with the id: 1'',
                  ChangePresence (JString ''chess'')]\<rparr>"
    by (simp add: empty fields str_int_1)
  from first second third show ?thesis by simp
qed

section \<open>Internal settings\<close>

lemma load_internal_settings_decodes:
  "decodes_to env path cfg \<Longrightarrow> load_internal_settings env path b = (Inr cfg, b)"
  by (auto simp: decodes_to_def load_internal_settings_def act_bind_def act_lift_def
      split: sum.splits)

lemma load_internal_settings_absent:
  \<open>path = [] \<or> \<not> path_exists env path \<Longrightarrow>
   load_internal_settings env path b =
     (Inr JNull,
      if path = [] then b
      else b\<lparr>trace := trace b @
        [Log ''Bot'' (''The loading operation has failed. The file '' @
           ''"internal_settings.json" should be in the system directory'')]\<rparr>)\<close>
  by (auto simp: load_internal_settings_def act_return_def act_seq_def act_bind_def log_def)

lemma set_internal_settings_decodes:
  assumes "decodes_to env path cfg" and "cfg \<noteq> JNull"
  shows "set_internal_settings env path b =
    (case getitem cfg ''ADM_ID'' of
       Inl e \<Rightarrow> (Inl e, b\<lparr>trace := trace b @ [Log ''Bot'' ''Loading internal definitions'']\<rparr>)
     | Inr adm \<Rightarrow>
    (case list_map_int env adm of
       Inl e \<Rightarrow> (Inl e, b\<lparr>trace := trace b @ [Log ''Bot'' ''Loading internal definitions'']\<rparr>)
     | Inr ids \<Rightarrow>
    (case getitem cfg ''TOKEN'' of
       Inl e \<Rightarrow> (Inl e, b\<lparr>admins_id := ids,
                    trace := trace b @ [Log ''Bot'' ''Loading internal definitions'']\<rparr>)
     | Inr tok \<Rightarrow>
    (case getitem cfg ''Activities'' of
       Inl e \<Rightarrow> (Inl e, b\<lparr>token := tok, admins_id := ids,
                    trace := trace b @ [Log ''Bot'' ''Loading internal definitions'']\<rparr>)
     | Inr acts \<Rightarrow>
    (case choice env acts of
       Inl e \<Rightarrow> (Inl e, b\<lparr>token := tok, admins_id := ids,
                    trace := trace b @ [Log ''Bot'' ''Loading internal definitions'']\<rparr>)
     | Inr a \<Rightarrow> (Inr (), b\<lparr>token := tok, admins_id := ids, activity_str := a,
                    trace := trace b @ [Log ''Bot'' ''Loading internal definitions'']\<rparr>))))))"
  using assms(2)
  by (simp add: set_internal_settings_def act_seq_def act_bind_def log_def act_lift_def
      assign_def load_internal_settings_decodes [OF assms(1)] split: sum.splits)

lemma map_int_conversions:
  "map_int env xs = Inr ids \<longleftrightarrow> map (py_int env) xs = map Inr ids"
proof (induction xs arbitrary: ids)
  case Nil
  show ?case by auto
next
  case (Cons x xs)
  show ?case
  proof (cases "py_int env x")
    case (Inl e)
    then show ?thesis by (cases ids) auto
  next
    case (Inr i)
    note conv = Inr
    show ?thesis
    proof (cases "map_int env xs")
      case (Inl e)
      with conv Cons.IH show ?thesis by (cases ids) auto
    next
      case (Inr js)
      with conv Cons.IH [of js] Cons.IH show ?thesis by (cases ids) auto
    qed
  qed
qed

lemma example_env_decodes: "decodes_to (example_env cfg) ''internal_settings.json'' cfg"
  by (simp add: decodes_to_def example_env_def)

lemma init_settings:
  "init env nm path ver =
     set_internal_settings env path
       \<lparr>name = nm, version = ver, token = JString [], admins_id = [],
        custom_guilds = [], activity_str = JString [], custom_ready = False, user = None,
        trace = [Log ''Bot'' (''Initializing '' @ nm @ '' '' @ ver),
                 Log ''Bot'' ''Initializing the RNG'']\<rparr>"
  by (simp add: init_def act_seq_def act_bind_def log_def)


lemma set_internal_settings_absent:
  \<open>path = [] \<or> \<not> path_exists env path \<Longrightarrow>
   set_internal_settings env path b =
     (Inr (),
      b\<lparr>trace := trace b @ [Log ''Bot'' ''Loading internal definitions''] @
        (if path = [] then []
         else [Log ''Bot'' (''The loading operation has failed. The file '' @
           ''"internal_settings.json" should be in the system directory'')]) @
        [Log ''Bot'' ''Failed set internal definitions'']\<rparr>)\<close>
  by (simp add: set_internal_settings_def act_seq_def act_bind_def log_def
      load_internal_settings_absent)

lemma init_absent:
  "path = [] \<or> \<not> path_exists env path \<Longrightarrow> admins_id (snd (init env nm path ver)) = []"
  by (simp add: init_settings set_internal_settings_absent)

lemma init_admins:
  assumes "decodes_to env path (JObject kvs)"
    and "map_of kvs ''ADM_ID'' = Some adm" and "list_map_int env adm = Inr ids"
  shows "admins_id (snd (init env nm path ver)) = ids"
  using assms(2,3)
  by (simp add: init_settings set_internal_settings_decodes [OF assms(1)] split: sum.splits)

text \<open>
  C2, as amended: for a configuration mapping whose \<^verbatim>\<open>ADM_ID\<close> is an array with entries
  that \<^verbatim>\<open>int\<close> converts, whose \<^verbatim>\<open>TOKEN\<close> is present and whose \<^verbatim>\<open>Activities\<close> is a non-empty
  array, \<^verbatim>\<open>set_internal_settings\<close> returns, the admin IDs are the conversions of the
  entries in order, the token is the value of \<^verbatim>\<open>TOKEN\<close> and the activity string is an
  element of \<^verbatim>\<open>Activities\<close>; nothing else changes but the trace, by one line.
\<close>

theorem settings_from_valid_mapping:
  assumes "decodes_to env path (JObject kvs)"
    and "map_of kvs ''ADM_ID'' = Some (JArray xs)"
    and "map (py_int env) xs = map Inr ids"
    and "map_of kvs ''TOKEN'' = Some tok"
    and "map_of kvs ''Activities'' = Some (JArray acts)"
    and "acts \<noteq> []"
  shows "\<exists>a \<in> set acts.
    set_internal_settings env path b =
      (Inr (), b\<lparr>token := tok, admins_id := ids, activity_str := a,
         trace := trace b @ [Log ''Bot'' ''Loading internal definitions'']\<rparr>)"
proof -
  let ?a = "acts ! (randbelow env (length acts) mod length acts)"
  from assms(6) have "?a \<in> set acts" by simp
  moreover from assms(3) have "map_int env xs = Inr ids"
    by (simp add: map_int_conversions)
  then have "set_internal_settings env path b =
      (Inr (), b\<lparr>token := tok, admins_id := ids, activity_str := ?a,
         trace := trace b @ [Log ''Bot'' ''Loading internal definitions'']\<rparr>)"
    using assms(2,4,5,6)
    by (simp add: set_internal_settings_decodes [OF assms(1)] list_map_int_def)
  ultimately show ?thesis by blast
qed

theorem settings_from_valid_mapping_witness:
  "set_internal_settings (example_env valid_settings) ''internal_settings.json'' example_bot =
     (Inr (), example_bot\<lparr>token := JString ''secret'', admins_id := [10, 42],
        activity_str := JString ''chess'',
        trace := [Log ''Bot'' ''Loading internal definitions'']\<rparr>)
   \<or> set_internal_settings (example_env valid_settings) ''internal_settings.json'' example_bot =
     (Inr (), example_bot\<lparr>token := JString ''secret'', admins_id := [10, 42],
        activity_str := JString ''go'',
        trace := [Log ''Bot'' ''Loading internal definitions'']\<rparr>)"
proof -
  have conversions: "map (py_int (example_env valid_settings)) [JInt 10, JString ''42''] =
      map Inr [10, 42]"
    by (simp add: example_env_def decimal_def)
  have empty: "trace example_bot = []"
    by (simp add: example_bot_def)
  from settings_from_valid_mapping
    [of "example_env valid_settings" "''internal_settings.json''"
       "[(''ADM_ID'', JArray [JInt 10, JString ''42'']), (''TOKEN'', JString ''secret''),
         (''Activities'', JArray [JString ''chess'', JString ''go''])]"
       "[JInt 10, JString ''42'']" "[10, 42]" "JString ''secret''"
       "[JString ''chess'', JString ''go'']" example_bot]
    example_env_decodes [of valid_settings] conversions
  show ?thesis
    by (simp add: valid_settings_def empty)
qed

text \<open>
  C2 as stated fails: a mapping with the three keys and a non-empty \<^verbatim>\<open>Activities\<close>, whose
  admin entry is the str \<^verbatim>\<open>admin\<close>, makes \<^verbatim>\<open>int\<close> raise \<^verbatim>\<open>ValueError\<close>; admin IDs, token
  and activity string keep their prior values.
\<close>

theorem settings_unconvertible_counterexample:
  "set_internal_settings (example_env unconvertible_settings) ''internal_settings.json''
     example_bot =
     (Inl ValueError, example_bot\<lparr>trace := [Log ''Bot'' ''Loading internal definitions'']\<rparr>)
   \<and> admins_id example_bot = [1, 2] \<and> token example_bot = JString ''t''
   \<and> activity_str example_bot = JString ''chess''"
proof -
  have "py_int (example_env unconvertible_settings) (JString ''admin'') = Inl ValueError"
    by (simp add: example_env_def decimal_def)
  then have "set_internal_settings (example_env unconvertible_settings)
      ''internal_settings.json'' example_bot =
     (Inl ValueError, example_bot\<lparr>trace := trace example_bot @
        [Log ''Bot'' ''Loading internal definitions'']\<rparr>)"
    by (simp add: set_internal_settings_decodes [OF example_env_decodes]
        unconvertible_settings_def list_map_int_def)
  then show ?thesis
    by (simp add: example_bot_def)
qed

text \<open>
  C7, as amended: for a loaded configuration mapping without one of the three keys,
  \<^verbatim>\<open>set_internal_settings\<close> raises, and so does the constructor; it prints no failure
  line and the activity string stays. The exception is the key-lookup failure of the
  first missing key, in the order \<^verbatim>\<open>ADM_ID\<close>, \<^verbatim>\<open>TOKEN\<close>, \<^verbatim>\<open>Activities\<close>, unless \<^verbatim>\<open>ADM_ID\<close> is
  present and its conversion raises: then it is the conversion's exception. The admin
  IDs (and the token) assigned before the exception stay assigned.
\<close>

theorem missing_key_raises:
  assumes "decodes_to env path (JObject kvs)"
    and "map_of kvs ''ADM_ID'' = None \<or> map_of kvs ''TOKEN'' = None
         \<or> map_of kvs ''Activities'' = None"
  shows "(\<exists>e. fst (set_internal_settings env path b) = Inl e)
    \<and> (\<exists>e. fst (init env nm path ver) = Inl e)
    \<and> trace (snd (set_internal_settings env path b)) =
        trace b @ [Log ''Bot'' ''Loading internal definitions'']
    \<and> activity_str (snd (set_internal_settings env path b)) = activity_str b
    \<and> (map_of kvs ''ADM_ID'' = None \<longrightarrow>
        set_internal_settings env path b =
          (Inl (KeyError (JString ''ADM_ID'')),
           b\<lparr>trace := trace b @ [Log ''Bot'' ''Loading internal definitions'']\<rparr>))
    \<and> (\<forall>adm ids. map_of kvs ''ADM_ID'' = Some adm \<and> list_map_int env adm = Inr ids \<longrightarrow>
        set_internal_settings env path b =
          (Inl (KeyError (JString
             (if map_of kvs ''TOKEN'' = None then ''TOKEN'' else ''Activities''))),
           (if map_of kvs ''TOKEN'' = None then b else b\<lparr>token := the (map_of kvs ''TOKEN'')\<rparr>)
             \<lparr>admins_id := ids,
              trace := trace b @ [Log ''Bot'' ''Loading internal definitions'']\<rparr>))
    \<and> (\<forall>adm e. map_of kvs ''ADM_ID'' = Some adm \<and> list_map_int env adm = Inl e \<longrightarrow>
        set_internal_settings env path b =
          (Inl e, b\<lparr>trace := trace b @ [Log ''Bot'' ''Loading internal definitions'']\<rparr>))"
proof -
  have raises: "\<exists>e. fst (set_internal_settings env path b') = Inl e" for b' :: "'a bot"
    using assms(2)
    by (auto simp: set_internal_settings_decodes [OF assms(1)] split: option.splits sum.splits)
  have rest: "trace (snd (set_internal_settings env path b)) =
        trace b @ [Log ''Bot'' ''Loading internal definitions'']
    \<and> activity_str (snd (set_internal_settings env path b)) = activity_str b
    \<and> (map_of kvs ''ADM_ID'' = None \<longrightarrow>
        set_internal_settings env path b =
          (Inl (KeyError (JString ''ADM_ID'')),
           b\<lparr>trace := trace b @ [Log ''Bot'' ''Loading internal definitions'']\<rparr>))
    \<and> (\<forall>adm ids. map_of kvs ''ADM_ID'' = Some adm \<and> list_map_int env adm = Inr ids \<longrightarrow>
        set_internal_settings env path b =
          (Inl (KeyError (JString
             (if map_of kvs ''TOKEN'' = None then ''TOKEN'' else ''Activities''))),
           (if map_of kvs ''TOKEN'' = None then b else b\<lparr>token := the (map_of kvs ''TOKEN'')\<rparr>)
             \<lparr>admins_id := ids,
              trace := trace b @ [Log ''Bot'' ''Loading internal definitions'']\<rparr>))
    \<and> (\<forall>adm e. map_of kvs ''ADM_ID'' = Some adm \<and> list_map_int env adm = Inl e \<longrightarrow>
        set_internal_settings env path b =
          (Inl e, b\<lparr>trace := trace b @ [Log ''Bot'' ''Loading internal definitions'']\<rparr>))"
    using assms(2)
    by (auto simp: set_internal_settings_decodes [OF assms(1)] split: option.splits sum.splits)
  from raises [of b] raises rest show ?thesis
    by (simp only: init_settings) blast
qed

theorem missing_key_raises_witness:
  "set_internal_settings (example_env tokenless_settings) ''internal_settings.json'' example_bot =
     (Inl (KeyError (JString ''TOKEN'')),
      example_bot\<lparr>admins_id := [10], trace := [Log ''Bot'' ''Loading internal definitions'']\<rparr>)
   \<and> (\<exists>e. fst (init (example_env tokenless_settings) ''Bot'' ''internal_settings.json''
        ''1.0'' :: (error + unit) \<times> string bot) = Inl e)"
proof -
  have missing: "map_of [(''ADM_ID'', JArray [JInt 10]), (''Activities'', JArray [JString ''chess''])]
      ''ADM_ID'' = None
    \<or> map_of [(''ADM_ID'', JArray [JInt 10]), (''Activities'', JArray [JString ''chess''])]
      ''TOKEN'' = None
    \<or> map_of [(''ADM_ID'', JArray [JInt 10]), (''Activities'', JArray [JString ''chess''])]
      ''Activities'' = None"
    by simp
  have decodes: "decodes_to (example_env tokenless_settings) ''internal_settings.json''
      (JObject [(''ADM_ID'', JArray [JInt 10]), (''Activities'', JArray [JString ''chess''])])"
    using example_env_decodes [of tokenless_settings] by (simp add: tokenless_settings_def)
  have converts: "list_map_int (example_env tokenless_settings) (JArray [JInt 10]) = Inr [10]"
    by (simp add: list_map_int_def)
  have empty: "trace example_bot = []"
    by (simp add: example_bot_def)
  note inst = missing_key_raises [OF decodes missing, of example_bot "''Bot''" "''1.0''"]
  from inst converts
  have "set_internal_settings (example_env tokenless_settings) ''internal_settings.json''
      example_bot =
     (Inl (KeyError (JString ''TOKEN'')),
      example_bot\<lparr>admins_id := [10],
        trace := trace example_bot @ [Log ''Bot'' ''Loading internal definitions'']\<rparr>)"
    by simp
  moreover from inst
  have "\<exists>e. fst (init (example_env tokenless_settings) ''Bot'' ''internal_settings.json''
        ''1.0'' :: (error + unit) \<times> string bot) = Inl e"
    by blast
  ultimately show ?thesis by (simp add: empty)
qed

text \<open>
  C7 as stated fails: a mapping without \<^verbatim>\<open>TOKEN\<close> and \<^verbatim>\<open>Activities\<close>, whose admin entry is
  the str \<^verbatim>\<open>admin\<close>, raises \<^verbatim>\<open>ValueError\<close>, not the key-lookup failure.
\<close>

theorem missing_key_other_error_counterexample:
  "set_internal_settings (example_env admin_only_settings) ''internal_settings.json''
     example_bot =
     (Inl ValueError, example_bot\<lparr>trace := [Log ''Bot'' ''Loading internal definitions'']\<rparr>)
   \<and> getitem admin_only_settings ''TOKEN'' = Inl (KeyError (JString ''TOKEN''))
   \<and> getitem admin_only_settings ''Activities'' = Inl (KeyError (JString ''Activities''))"
proof -
  have "py_int (example_env admin_only_settings) (JString ''admin'') = Inl ValueError"
    by (simp add: example_env_def decimal_def)
  then have "set_internal_settings (example_env admin_only_settings)
      ''internal_settings.json'' example_bot =
     (Inl ValueError, example_bot\<lparr>trace := trace example_bot @
        [Log ''Bot'' ''Loading internal definitions'']\<rparr>)"
    by (simp add: set_internal_settings_decodes [OF example_env_decodes]
        admin_only_settings_def list_map_int_def)
  then show ?thesis
    by (simp add: example_bot_def admin_only_settings_def)
qed

text \<open>
  C3, as amended: for the empty path \<^verbatim>\<open>load_internal_settings\<close> returns \<^verbatim>\<open>None\<close> and prints
  nothing; for a non-empty path that does not exist it returns \<^verbatim>\<open>None\<close> and prints the
  failure line. In both cases \<^verbatim>\<open>set_internal_settings\<close> returns, prints its own failure
  line, and leaves admin IDs, token and activity string (and every other field but the
  trace) as they were.
\<close>

theorem absent_settings_keep_fields:
  \<open>path = [] \<or> \<not> path_exists env path \<longrightarrow>
     load_internal_settings env path b =
       (Inr JNull,
        if path = [] then b
        else b\<lparr>trace := trace b @
          [Log ''Bot'' (''The loading operation has failed. The file '' @
             ''"internal_settings.json" should be in the system directory'')]\<rparr>)
     \<and> set_internal_settings env path b =
       (Inr (),
        b\<lparr>trace := trace b @ [Log ''Bot'' ''Loading internal definitions''] @
          (if path = [] then []
           else [Log ''Bot'' (''The loading operation has failed. The file '' @
             ''"internal_settings.json" should be in the system directory'')]) @
          [Log ''Bot'' ''Failed set internal definitions'']\<rparr>)
     \<and> admins_id (snd (set_internal_settings env path b)) = admins_id b
     \<and> token (snd (set_internal_settings env path b)) = token b
     \<and> activity_str (snd (set_internal_settings env path b)) = activity_str b\<close>
proof
  assume absent: "path = [] \<or> \<not> path_exists env path"
  note load = load_internal_settings_absent [OF absent, of b]
  note set = set_internal_settings_absent [OF absent, of b]
  have fields: "admins_id (snd (set_internal_settings env path b)) = admins_id b
      \<and> token (snd (set_internal_settings env path b)) = token b
      \<and> activity_str (snd (set_internal_settings env path b)) = activity_str b"
    by (simp add: set)
  from load set fields show \<open>load_internal_settings env path b =
       (Inr JNull,
        if path = [] then b
        else b\<lparr>trace := trace b @
          [Log ''Bot'' (''The loading operation has failed. The file '' @
             ''"internal_settings.json" should be in the system directory'')]\<rparr>)
     \<and> set_internal_settings env path b =
       (Inr (),
        b\<lparr>trace := trace b @ [Log ''Bot'' ''Loading internal definitions''] @
          (if path = [] then []
           else [Log ''Bot'' (''The loading operation has failed. The file '' @
             ''"internal_settings.json" should be in the system directory'')]) @
          [Log ''Bot'' ''Failed set internal definitions'']\<rparr>)
     \<and> admins_id (snd (set_internal_settings env path b)) = admins_id b
     \<and> token (snd (set_internal_settings env path b)) = token b
     \<and> activity_str (snd (set_internal_settings env path b)) = activity_str b\<close>
    by (simp only: simp_thms)
qed

theorem absent_settings_keep_fields_witness:
  \<open>load_internal_settings (example_env valid_settings) ''missing.json'' example_bot =
     (Inr JNull,
      example_bot\<lparr>trace :=
        [Log ''Bot'' (''The loading operation has failed. The file '' @
           ''"internal_settings.json" should be in the system directory'')]\<rparr>)
   \<and> set_internal_settings (example_env valid_settings) ''missing.json'' example_bot =
     (Inr (),
      example_bot\<lparr>trace :=
        [Log ''Bot'' ''Loading internal definitions'',
         Log ''Bot'' (''The loading operation has failed. The file '' @
           ''"internal_settings.json" should be in the system directory''),
         Log ''Bot'' ''Failed set internal definitions'']\<rparr>)
   \<and> set_internal_settings (example_env valid_settings) [] example_bot =
     (Inr (),
      example_bot\<lparr>trace :=
        [Log ''Bot'' ''Loading internal definitions'',
         Log ''Bot'' ''Failed set internal definitions'']\<rparr>)\<close>
proof -
  have missing: "\<not> path_exists (example_env valid_settings) ''missing.json''"
    by (simp add: example_env_def)
  have empty: "trace example_bot = []"
    by (simp add: example_bot_def)
  from absent_settings_keep_fields
    [of "''missing.json''" "example_env valid_settings" example_bot] missing
  have first: \<open>load_internal_settings (example_env valid_settings) ''missing.json'' example_bot =
     (Inr JNull,
      example_bot\<lparr>trace :=
        [Log ''Bot'' (''The loading operation has failed. The file '' @
           ''"internal_settings.json" should be in the system directory'')]\<rparr>)
   \<and> set_internal_settings (example_env valid_settings) ''missing.json'' example_bot =
     (Inr (),
      example_bot\<lparr>trace :=
        [Log ''Bot'' ''Loading internal definitions'',
         Log ''Bot'' (''The loading operation has failed. The file '' @
           ''"internal_settings.json" should be in the system directory''),
         Log ''Bot'' ''Failed set internal definitions'']\<rparr>)\<close>
    by (simp add: empty)
  from absent_settings_keep_fields [of "[]" "example_env valid_settings" example_bot]
  have second: "set_internal_settings (example_env valid_settings) [] example_bot =
     (Inr (),
      example_bot\<lparr>trace :=
        [Log ''Bot'' ''Loading internal definitions'',
         Log ''Bot'' ''Failed set internal definitions'']\<rparr>)"
    by (simp add: empty)
  from first second show ?thesis by simp
qed

text \<open>
  C3 as stated fails: with the empty path \<^verbatim>\<open>load_internal_settings\<close> returns \<^verbatim>\<open>None\<close> and
  the trace stays empty.
\<close>

theorem empty_path_logs_nothing_counterexample:
  "load_internal_settings (example_env valid_settings) [] example_bot = (Inr JNull, example_bot)
   \<and> trace (snd (load_internal_settings (example_env valid_settings) [] example_bot)) = []"
  by (simp add: load_internal_settings_def act_return_def example_bot_def)

section \<open>Administration check\<close>

text \<open>
  C6: \<^verbatim>\<open>is_admin\<close> returns true exactly when the identifier is in the admin ID list,
  returns false for every identifier when that list is empty, never raises and leaves
  the bot as it was. For a bot constructed from a configuration whose \<^verbatim>\<open>ADM_ID\<close>
  converts to the integers \<open>ids\<close>, the answer is membership in \<open>ids\<close>; for a bot
  constructed without a configuration file, the answer is false.
\<close>

theorem is_admin_iff_member:
  "is_admin author_id b = (Inr (author_id \<in> set (admins_id b)), b)
   \<and> is_admin author_id (b\<lparr>admins_id := []\<rparr>) = (Inr False, b\<lparr>admins_id := []\<rparr>)
   \<and> (decodes_to env path (JObject kvs) \<and> map_of kvs ''ADM_ID'' = Some adm
        \<and> list_map_int env adm = Inr ids \<longrightarrow>
      is_admin author_id (snd (init env nm path ver)) =
        (Inr (author_id \<in> set ids), snd (init env nm path ver)))
   \<and> (path = [] \<or> \<not> path_exists env path \<longrightarrow>
      is_admin author_id (snd (init env nm path ver)) =
        (Inr False, snd (init env nm path ver)))"
  by (auto simp: is_admin_def act_return_def init_admins init_absent)

theorem is_admin_iff_member_witness:
  "fst (is_admin 42 (snd (init (example_env valid_settings) ''Bot''
      ''internal_settings.json'' ''1.0''))) = Inr True
   \<and> fst (is_admin 7 (snd (init (example_env valid_settings) ''Bot''
      ''internal_settings.json'' ''1.0''))) = Inr False
   \<and> fst (is_admin 42 (snd (init (example_env valid_settings) ''Bot''
      ''missing.json'' ''1.0''))) = Inr False
   \<and> is_admin 2 example_bot = (Inr True, example_bot)"
proof -
  have decodes: "decodes_to (example_env valid_settings) ''internal_settings.json''
      (JObject [(''ADM_ID'', JArray [JInt 10, JString ''42'']), (''TOKEN'', JString ''secret''),
                (''Activities'', JArray [JString ''chess'', JString ''go''])])"
    using example_env_decodes [of valid_settings] by (simp add: valid_settings_def)
  have admins: "map_of [(''ADM_ID'', JArray [JInt 10, JString ''42'']),
      (''TOKEN'', JString ''secret''),
      (''Activities'', JArray [JString ''chess'', JString ''go''])] ''ADM_ID'' =
      Some (JArray [JInt 10, JString ''42''])"
    by simp
  have converts: "list_map_int (example_env valid_settings) (JArray [JInt 10, JString ''42'']) =
      Inr [10, 42]"
    by (simp add: list_map_int_def example_env_def decimal_def)
  have missing: "\<not> path_exists (example_env valid_settings) ''missing.json''"
    by (simp add: example_env_def)
  from is_admin_iff_member
    [of 42 example_bot "example_env valid_settings" "''internal_settings.json''"
       "[(''ADM_ID'', JArray [JInt 10, JString ''42'']), (''TOKEN'', JString ''secret''),
        (''Activities'', JArray [JString ''chess'', JString ''go''])]"
       "JArray [JInt 10, JString ''42'']" "[10, 42]" "''Bot''" "''1.0''"]
    decodes admins converts
  have first: "fst (is_admin 42 (snd (init (example_env valid_settings) ''Bot''
      ''internal_settings.json'' ''1.0''))) = Inr True"
    by simp
  from is_admin_iff_member
    [of 7 example_bot "example_env valid_settings" "''internal_settings.json''"
       "[(''ADM_ID'', JArray [JInt 10, JString ''42'']), (''TOKEN'', JString ''secret''),
        (''Activities'', JArray [JString ''chess'', JString ''go''])]"
       "JArray [JInt 10, JString ''42'']" "[10, 42]" "''Bot''" "''1.0''"]
    decodes admins converts
  have second: "fst (is_admin 7 (snd (init (example_env valid_settings) ''Bot''
      ''internal_settings.json'' ''1.0''))) = Inr False"
    by simp
  from is_admin_iff_member
    [of 42 example_bot "example_env valid_settings" "''missing.json''" "[]"
       "JNull" "[]" "''Bot''" "''1.0''"]
    missing
  have third: "fst (is_admin 42 (snd (init (example_env valid_settings) ''Bot''
      ''missing.json'' ''1.0''))) = Inr False"
    by simp
  from is_admin_iff_member
    [of 2 example_bot "example_env valid_settings" "[]" "[]" "JNull" "[]" "[]" "[]"]
  have fourth: "is_admin 2 example_bot = (Inr True, example_bot)"
    by (simp add: example_bot_def)
  from first second third fourth show ?thesis by simp
qed

end
